(* ===== verification/LoRa_Prelude.thy ===== *)
theory LoRa_Prelude
  imports Main "HOL-Library.Word"
begin

text \<open>
  Shared vocabulary of the development: the C integer types of the sources as
  fixed-width words, the byte/ASCII conversions used to state properties of
  payloads, the collection \<open>lora_simps\<close> of rewrite rules that the component
  theories register their operations in, and the generic facts about bytes and
  16-bit big-endian values that several components share.
\<close>

section \<open>Machine types of the sources\<close>

text \<open>
  LMIC's \<open>u1_t\<close>, Arduino's \<open>byte\<close> and \<open>uint8_t\<close> are 8-bit words; \<open>s1_t\<close>
  is the same 8 bits read as two's complement (\<open>sint\<close>); \<open>uint16_t\<close> and
  \<open>int16_t\<close> are 16-bit words; \<open>u4_t\<close> and the ESP32's \<open>unsigned int\<close> are
  32-bit words.
\<close>

type_synonym u1 = "8 word"
type_synonym s1 = "8 word"
type_synonym u2 = "16 word"
type_synonym s2 = "16 word"
type_synonym u4 = "32 word"

named_theorems lora_simps "evaluation rules of the node's operations"

section \<open>Bytes and ASCII text\<close>

text \<open>The bytes of an ASCII string, as a C byte array initialiser lists them.\<close>

definition ascii :: "string \<Rightarrow> u1 list" where
  "ascii s = map of_char s"

lemma ascii_Nil [simp]: "ascii [] = []"
  by (simp add: ascii_def)

lemma ascii_Cons [simp]: "ascii (c # cs) = of_char c # ascii cs"
  by (simp add: ascii_def)

lemma length_ascii [simp]: "length (ascii s) = length s"
  by (simp add: ascii_def)

section \<open>Facts about bytes and 16-bit values\<close>

lemma unat_u1_less [simp]: "unat (b :: u1) < 256"
  using unsigned_less [of b, where ?'a = nat] by simp

lemma unat_u2_less [simp]: "unat (w :: u2) < 65536"
  using unsigned_less [of w, where ?'a = nat] by simp

lemma unat_u4_less [simp]: "unat (w :: u4) < 4294967296"
  using unsigned_less [of w, where ?'a = nat] by simp

text \<open>
  The largest value of \<open>256 * hi + lo\<close> for two bytes is \<open>65535\<close>: the C
  expression computed in \<open>int\<close> always fits in a \<open>uint16_t\<close>.
\<close>

lemma be16_less: "256 * unat (hi :: u1) + unat (lo :: u1) < 65536"
  using unat_u1_less [of hi] unat_u1_less [of lo] by linarith

lemma unat_be16 [simp]:
  "unat (word_of_nat (256 * unat (hi :: u1) + unat (lo :: u1)) :: u2) = 256 * unat hi + unat lo"
  using be16_less [of hi lo] by (simp only: unat_of_nat) simp

text \<open>Two byte pairs give the same 16-bit value only if they are the same pair.\<close>

lemma be16_inject:
  assumes "256 * unat (hi :: u1) + unat (lo :: u1) = 256 * unat (hi' :: u1) + unat (lo' :: u1)"
  shows "hi = hi' \<and> lo = lo'"
proof -
  have "(256 * unat hi + unat lo) mod 256 = (256 * unat hi' + unat lo') mod 256"
    and "(256 * unat hi + unat lo) div 256 = (256 * unat hi' + unat lo') div 256"
    using assms by simp_all
  then have "unat lo = unat lo'" and "unat hi = unat hi'"
    by simp_all
  then show ?thesis by (simp add: unsigned_word_eqI)
qed

text \<open>Splitting a 16-bit value into its high and low byte and joining them back.\<close>

lemma be16_split:
  "256 * unat (word_of_nat (unat (n :: u2) div 256) :: u1)
     + unat (word_of_nat (unat n mod 256) :: u1) = unat n"
proof -
  have "unat n div 256 < 256"
    using unat_u2_less [of n] by linarith
  then have hi: "unat (word_of_nat (unat n div 256) :: u1) = unat n div 256"
    by (simp only: unat_of_nat) simp
  have lo: "unat (word_of_nat (unat n mod 256) :: u1) = unat n mod 256"
    by (simp only: unat_of_nat) simp
  show ?thesis by (simp only: hi lo) arith
qed


text \<open>A loop counter below its bound steps without wrapping.\<close>

lemma unat_succ_less:
  assumes "(i :: 'a::len word) < j"
  shows "unat (i + 1) = Suc (unat i)"
proof -
  have "unat i < unat j"
    using assms by (simp add: word_less_nat_alt)
  then have "Suc (unat i) < 2 ^ LENGTH('a)"
    using unsigned_less [of j, where ?'a = nat] by linarith
  then show ?thesis
    by (simp add: unat_word_ariths)
qed

lemma unat_of_nat_below:
  assumes "j < unat (n :: 'a::len word)"
  shows "unat (word_of_nat j :: 'a word) = j"
proof -
  have "j < 2 ^ LENGTH('a)"
    using assms unsigned_less [of n, where ?'a = nat] by linarith
  then show ?thesis
    by (simp only: unat_of_nat) simp
qed

lemma word_of_nat_below_eq_0:
  assumes "j < unat (n :: 'a::len word)"
  shows "(word_of_nat j = (0 :: 'a word)) \<longleftrightarrow> j = 0"
proof -
  have u: "unat (word_of_nat j :: 'a word) = j"
    by (rule unat_of_nat_below [OF assms])
  have "word_of_nat j = (0 :: 'a word) \<longleftrightarrow> unat (word_of_nat j :: 'a word) = unat (0 :: 'a word)"
    by (rule word_unat_eq_iff)
  then show ?thesis
    by (simp only: u unsigned_0)
qed

lemma map_unat_of_nat_upt:
  "map (\<lambda>j. h (unat (word_of_nat j :: 'a::len word))) [0..<unat (n :: 'a word)] = map h [0..<unat n]"
  by (intro map_cong refl) (simp add: unat_of_nat_below)

end
