(* ===== verification/Platform.thy ===== *)
theory Platform
  imports LoRa_Prelude
begin

text \<open>
  The interface between the sources and the platform they run on: the part of
  LMIC's global \<open>LMIC\<close> structure that the sources read or write, the constants
  of \<open>lmic.h\<close> they use, and the calls into LMIC, Arduino and ESP-IDF whose
  effect leaves the node (a frame handed to LMIC for transmission, a delay, a
  restart). The library itself is not part of the repository: this theory
  states what the sources rely on and nothing more.
\<close>

section \<open>The LMIC state the sources use\<close>

text \<open>
  After a reception, \<open>frame\<close> holds the whole MAC frame; the application
  payload is \<open>frame[dataBeg .. dataBeg + dataLen - 1]\<close> and the LoRaWAN port is
  the byte just before it, \<open>frame[dataBeg - 1]\<close>. \<open>seqnoUp\<close>/\<open>seqnoDn\<close> are
  the frame counters, \<open>rssi\<close> and \<open>snr\<close> signed bytes (\<open>snr\<close> in units of
  0.25 dB), \<open>txrxFlags\<close> the flags of the last reception.
\<close>

record lmic_state =
  frame :: "u1 list"
  dataBeg :: u1
  dataLen :: u1
  txrxFlags :: u1
  rxDelay :: u1
  clockError :: u2
  seqnoUp :: u4
  seqnoDn :: u4
  rssi :: s1
  snr :: s1
  datarate :: u1
  freq :: u4
  txChnl :: u1
  txpow :: s1
  rps :: u2
  netid :: u4
  devaddr :: u4

text \<open>
  A frame buffer is well formed when the port byte and the whole payload lie
  inside it; LMIC guarantees this for every frame it delivers (the port follows
  at least the one-byte MAC header).
\<close>

definition frame_wf :: "lmic_state \<Rightarrow> bool" where
  "frame_wf l \<longleftrightarrow> 1 \<le> unat (dataBeg l) \<and> unat (dataBeg l) + unat (dataLen l) \<le> length (frame l)"

text \<open>\<open>frame[i]\<close> of the C code.\<close>

definition frame_at :: "lmic_state \<Rightarrow> nat \<Rightarrow> u1" where
  "frame_at l i = frame l ! i"

text \<open>The port and the payload LMIC delivered, as the application sees them.\<close>

definition rx_port :: "lmic_state \<Rightarrow> u1" where
  "rx_port l = frame_at l (unat (dataBeg l) - 1)"

definition rx_payload :: "lmic_state \<Rightarrow> u1 list" where
  "rx_payload l = take (unat (dataLen l)) (drop (unat (dataBeg l)) (frame l))"

section \<open>Constants of \<open>lmic.h\<close>\<close>

text \<open>Bits of \<open>txrxFlags\<close> (enum in \<open>lmic.h\<close>) and the clock-error scale.\<close>

definition TXRX_ACK :: u1 where "TXRX_ACK = 0x80"
definition TXRX_NACK :: u1 where "TXRX_NACK = 0x40"
definition TXRX_PORT :: u1 where "TXRX_PORT = 0x10"
definition TXRX_PING :: u1 where "TXRX_PING = 0x04"
definition TXRX_DNW2 :: u1 where "TXRX_DNW2 = 0x02"
definition TXRX_DNW1 :: u1 where "TXRX_DNW1 = 0x01"

definition MAX_CLOCK_ERROR :: nat where "MAX_CLOCK_ERROR = 65536"

text \<open>
  Data rates of the AU915 region (\<open>lorabase_au915.h\<close>): DR0 is SF12 down to
  DR5, SF7, at 125 kHz.
\<close>

definition DR_SF9 :: u1 where "DR_SF9 = 3"
definition DR_SF7 :: u1 where "DR_SF7 = 5"

section \<open>Effects that leave the node\<close>

text \<open>
  \<open>TxData2 port bytes conf\<close> is the call \<open>LMIC_setTxData2(port, data, dlen,
  conf)\<close> with the \<open>dlen\<close> bytes LMIC copies from \<open>data\<close>; \<open>Delay\<close> and
  \<open>DelayMicroseconds\<close> are Arduino's busy waits; \<open>EspRestart\<close> is
  \<open>esp_restart()\<close>, which does not return.
\<close>

datatype io =
    TxData2 u1 "u1 list" u1
  | Delay nat
  | DelayMicroseconds nat
  | EspRestart

definition LMIC_setTxData2 :: "u1 \<Rightarrow> u1 list \<Rightarrow> u1 \<Rightarrow> u1 \<Rightarrow> io" where
  "LMIC_setTxData2 port data dlen conf = TxData2 port (take (unat dlen) data) conf"

definition LMIC_setClockError :: "u2 \<Rightarrow> lmic_state \<Rightarrow> lmic_state" where
  "LMIC_setClockError e l = l\<lparr>clockError := e\<rparr>"

text \<open>Counting the effects of a run.\<close>

definition restarts :: "io list \<Rightarrow> nat" where
  "restarts ios = count_list ios EspRestart"

definition is_tx :: "io \<Rightarrow> bool" where
  "is_tx e \<longleftrightarrow> (case e of TxData2 _ _ _ \<Rightarrow> True | _ \<Rightarrow> False)"


section \<open>Delivery of a frame by LMIC\<close>

text \<open>
  The LMIC state before any reception, and the state after LMIC received a
  frame with MAC header bytes \<open>hdr\<close> (MHDR and FHDR), port \<open>port\<close> and
  application payload \<open>payload\<close>: the frame buffer holds the three in that
  order, \<open>dataBeg\<close> indexes the payload and \<open>dataLen\<close> is its length.
\<close>

definition lmic_init :: lmic_state where
  "lmic_init = \<lparr>frame = [], dataBeg = 0, dataLen = 0, txrxFlags = 0, rxDelay = 0, clockError = 0,
     seqnoUp = 0, seqnoDn = 0, rssi = 0, snr = 0, datarate = 0, freq = 0, txChnl = 0, txpow = 0,
     rps = 0, netid = 0, devaddr = 0\<rparr>"

definition lmic_receive :: "u1 list \<Rightarrow> u1 \<Rightarrow> u1 list \<Rightarrow> lmic_state \<Rightarrow> lmic_state" where
  "lmic_receive hdr port payload l =
     l\<lparr>frame := hdr @ port # payload, dataBeg := word_of_nat (Suc (length hdr)),
       dataLen := word_of_nat (length payload)\<rparr>"


text \<open>
  A MAC header of an unconfirmed data-down frame to device address
  \<open>0x23c4e71c\<close> with frame counter 1: the header of the example frames.
\<close>

definition example_hdr :: "u1 list" where
  "example_hdr = [0x60, 0x1C, 0xE7, 0xC4, 0x23, 0x00, 0x01, 0x00]"

section \<open>Properties of the interface\<close>

lemma length_rx_payload:
  "frame_wf l \<Longrightarrow> length (rx_payload l) = unat (dataLen l)"
  by (auto simp add: frame_wf_def rx_payload_def min_def)

lemma rx_payload_nth:
  "frame_wf l \<Longrightarrow> i < unat (dataLen l) \<Longrightarrow> rx_payload l ! i = frame_at l (unat (dataBeg l) + i)"
  by (simp add: frame_wf_def rx_payload_def frame_at_def)

lemma restarts_Nil [simp]: "restarts [] = 0"
  by (simp add: restarts_def)

lemma restarts_append [simp]: "restarts (xs @ ys) = restarts xs + restarts ys"
  by (simp add: restarts_def)

lemma restarts_Cons [simp]: "restarts (x # xs) = (if x = EspRestart then 1 else 0) + restarts xs"
  by (simp add: restarts_def)

lemma restarts_zero_iff: "restarts ios = 0 \<longleftrightarrow> EspRestart \<notin> set ios"
  by (induction ios) auto

text \<open>A frame that fits the 8-bit indices is delivered intact.\<close>

lemma lmic_receive_delivers:
  assumes "length hdr < 255" "length payload < 256"
  shows "frame_wf (lmic_receive hdr port payload l)"
    and "rx_port (lmic_receive hdr port payload l) = port"
    and "rx_payload (lmic_receive hdr port payload l) = payload"
proof -
  have "unat (word_of_nat (Suc (length hdr)) :: u1) = Suc (length hdr)"
    using assms(1) by (simp only: unat_of_nat) simp
  then have b: "unat (1 + word_of_nat (length hdr) :: u1) = Suc (length hdr)"
    by simp
  have n: "unat (word_of_nat (length payload) :: u1) = length payload"
    using assms(2) by (simp only: unat_of_nat) simp
  show "frame_wf (lmic_receive hdr port payload l)"
    by (simp add: frame_wf_def lmic_receive_def b n)
  show "rx_port (lmic_receive hdr port payload l) = port"
    by (simp add: rx_port_def frame_at_def lmic_receive_def b nth_append)
  show "rx_payload (lmic_receive hdr port payload l) = payload"
    by (simp add: rx_payload_def lmic_receive_def b n)
qed

lemma lmic_receive_other_fields [simp]:
  "rxDelay (lmic_receive hdr port payload l) = rxDelay l"
  "clockError (lmic_receive hdr port payload l) = clockError l"
  "seqnoUp (lmic_receive hdr port payload l) = seqnoUp l"
  by (simp_all add: lmic_receive_def)

end
