(* ===== verification/Configurations.thy ===== *)
theory Configurations
  imports Platform
begin

text \<open>
  The build configuration and the global variables of \<open>src/_configurations.h\<close>,
  and the state of the whole node: those globals, the LMIC state and the
  levels of the GPIO output latches written by \<open>digitalWrite\<close>. The
  \<open>#define\<close>d constants (radio pin map, transmission parameters, data rates,
  the LED pin) are definitions of the same name.
\<close>

section \<open>Build-time selections\<close>

text \<open>
  The header selects the activation mode, the network provider and the debug
  output with \<open>#define\<close>; the model makes each selection a value.
\<close>

datatype activation = USE_ABP | USE_OTAA

datatype network =
    USE_CHIRPSTACK_AU915
  | USE_CHIRPSTACK_AU915LA
  | USE_EVERYNET_AU915LA
  | USE_THETHINGSNETWORK_AU915

record build =
  debug :: bool
  activation_mode :: activation
  network_provider :: network

definition build_config :: build where
  "build_config = \<lparr>debug = True, activation_mode = USE_OTAA, network_provider = USE_CHIRPSTACK_AU915\<rparr>"

section \<open>Transmission parameters and pins\<close>

definition SERIAL_BAUD_RATE :: nat where "SERIAL_BAUD_RATE = 9600"

text \<open>The SPI and DIO pins of the radio (ESP32 Dev Module / D1-Mini with an RFM95W).\<close>

definition SCK_GPIO :: nat where "SCK_GPIO = 18"
definition MISO_GPIO :: nat where "MISO_GPIO = 19"
definition MOSI_GPIO :: nat where "MOSI_GPIO = 23"
definition NSS_GPIO :: nat where "NSS_GPIO = 5"
definition RESET_GPIO :: nat where "RESET_GPIO = 14"
definition DIO0_GPIO :: nat where "DIO0_GPIO = 34"
definition DIO1_GPIO :: nat where "DIO1_GPIO = 35"
definition DIO2_GPIO :: nat where "DIO2_GPIO = 39"

definition radio_pins :: "nat list" where
  "radio_pins = [SCK_GPIO, MISO_GPIO, MOSI_GPIO, NSS_GPIO, RESET_GPIO, DIO0_GPIO, DIO1_GPIO, DIO2_GPIO]"

text \<open>Transmission parameters.\<close>

definition UPLINK_PORT :: u1 where "UPLINK_PORT = 101"
definition UPLINK_CONFIRMED :: int where "UPLINK_CONFIRMED = 0"
definition ADR_MODE :: int where "ADR_MODE = 0"
definition LINK_CHECK_MODE :: int where "LINK_CHECK_MODE = 0"
definition UPLINK_DATA_RATE :: u1 where "UPLINK_DATA_RATE = DR_SF7"
definition TRANSMIT_POWER :: int where "TRANSMIT_POWER = 14"
definition DN2DR :: u1 where "DN2DR = DR_SF9"
definition RX_DELAY :: u1 where "RX_DELAY = 1"
definition CLOCK_ERROR :: nat where "CLOCK_ERROR = 1"

definition LED :: nat where "LED = 25"

text \<open>The C conversion of an \<open>int\<close> to \<open>bool\<close>: every non-zero value is true.\<close>

definition c_bool :: "int \<Rightarrow> bool" where
  "c_bool i \<longleftrightarrow> i \<noteq> 0"

section \<open>Global variables\<close>

record globals =
  TX_INTERVAL :: u4
  joinstatus :: u1
  modeOperation :: string
  seqNoUp :: u4

definition globals_init :: globals where
  "globals_init = \<lparr>TX_INTERVAL = 15, joinstatus = 0, modeOperation = [], seqNoUp = 0\<rparr>"

section \<open>The node\<close>

record node = globals +
  lmic :: lmic_state
  gpio :: "nat \<Rightarrow> bool"

text \<open>Arduino's \<open>digitalWrite(pin, level)\<close>, \<open>HIGH\<close> being \<open>True\<close>.\<close>

definition digitalWrite :: "nat \<Rightarrow> bool \<Rightarrow> node \<Rightarrow> node" where
  "digitalWrite pin level s = s\<lparr>gpio := (gpio s)(pin := level)\<rparr>"

text \<open>The node right after power-on: globals at their initialisers, all pins low.\<close>

definition node_boot :: node where
  "node_boot = \<lparr>TX_INTERVAL = 15, joinstatus = 0, modeOperation = [], seqNoUp = 0,
     lmic = lmic_init, gpio = (\<lambda>_. False)\<rparr>"

section \<open>Properties\<close>

lemma gpio_digitalWrite [simp]: "gpio (digitalWrite p v s) = (gpio s)(p := v)"
  by (simp add: digitalWrite_def)

lemma digitalWrite_other_fields [simp]:
  "TX_INTERVAL (digitalWrite p v s) = TX_INTERVAL s"
  "seqNoUp (digitalWrite p v s) = seqNoUp s"
  "joinstatus (digitalWrite p v s) = joinstatus s"
  "modeOperation (digitalWrite p v s) = modeOperation s"
  "lmic (digitalWrite p v s) = lmic s"
  by (simp_all add: digitalWrite_def)

lemma node_boot_globals: "globals.truncate node_boot = globals_init"
  by (simp add: node_boot_def globals_init_def globals.truncate_def)

declare UPLINK_PORT_def [lora_simps] UPLINK_CONFIRMED_def [lora_simps] RX_DELAY_def [lora_simps]
  CLOCK_ERROR_def [lora_simps] LED_def [lora_simps] c_bool_def [lora_simps]

end
