(* ===== verification/Uplinks.thy ===== *)
theory Uplinks
  imports Configurations
begin

text \<open>
  The uplink side, \<open>src/_uplinks.h\<close>: the constant relay payload, the wrapper
  \<open>payloadSend\<close> around \<open>LMIC_setTxData2\<close>, and \<open>payloadMyNameVerticalBytes\<close>,
  which fills a local array byte by byte and hands it to LMIC. Each operation
  returns the \<open>io\<close> effect it causes. The lemmas show what bytes leave the
  node: the name payload is \<open>AdailSilva\<close> whatever the stack held before, and
  \<open>payloadSend\<close> sends a whole array exactly when its size fits the
  \<open>uint8_t\<close> size parameter.
\<close>

section \<open>Operations\<close>

definition payloadRelayUplink :: "u1 list" where
  "payloadRelayUplink = [82, 101, 108, 97, 121, 32, 117, 112, 108, 105, 110, 107, 32, 45, 32, 79, 107]"

text \<open>
  \<open>payloadSend(port, data, data_size, confirmed)\<close>: the size is a
  \<open>uint8_t\<close> and the flag is turned into \<open>1\<close> or \<open>0\<close>.
\<close>

definition payloadSend :: "u1 \<Rightarrow> u1 list \<Rightarrow> u1 \<Rightarrow> bool \<Rightarrow> io" where
  "payloadSend port data data_size confirmed =
     LMIC_setTxData2 port data data_size (if confirmed then 1 else 0)"

text \<open>
  \<open>sizeof\<close> of a byte array, converted to the \<open>uint8_t\<close> parameter of
  \<open>payloadSend\<close> (the conversion keeps the value modulo 256).
\<close>

definition sizeof_u1 :: "u1 list \<Rightarrow> u1" where
  "sizeof_u1 a = word_of_nat (length a)"

text \<open>
  The ten stores of \<open>payloadMyNameVerticalBytes\<close> into the local array
  \<open>byte payload[10]\<close>, whose previous contents are whatever the stack held.
\<close>

definition payloadMyName_fill :: "u1 list \<Rightarrow> u1 list" where
  "payloadMyName_fill payload =
     payload[0 := 65, 1 := 100, 2 := 97, 3 := 105, 4 := 108,
             5 := 83, 6 := 105, 7 := 108, 8 := 118, 9 := 97]"

definition payloadMyNameVerticalBytes :: "u1 list \<Rightarrow> io" where
  "payloadMyNameVerticalBytes stack =
     (let payload = payloadMyName_fill stack
      in LMIC_setTxData2 UPLINK_PORT payload (sizeof_u1 payload) (word_of_int UPLINK_CONFIRMED))"

text \<open>The call of \<open>downlinksRule\<close> for the relay command.\<close>

definition relay_uplink :: io where
  "relay_uplink = payloadSend UPLINK_PORT payloadRelayUplink (sizeof_u1 payloadRelayUplink) (c_bool UPLINK_CONFIRMED)"

section \<open>Properties\<close>

lemma payloadSend_bytes:
  "payloadSend port data n c = TxData2 port (take (unat n) data) (if c then 1 else 0)"
  by (simp add: payloadSend_def LMIC_setTxData2_def)

lemma unat_sizeof_u1: "unat (sizeof_u1 a) = length a mod 256"
  by (simp add: sizeof_u1_def unat_of_nat)

lemma length_payloadMyName_fill [simp]: "length (payloadMyName_fill p) = length p"
  by (simp add: payloadMyName_fill_def)

text \<open>
  C20: every byte of the local array is written before it is sent: whatever the
  ten bytes on the stack were, the frame is the ASCII text \<open>AdailSilva\<close>, sent
  unconfirmed on port 101.
\<close>

theorem payloadMyName_independent_of_stack:
  assumes "length stack = 10"
  shows "payloadMyNameVerticalBytes stack = TxData2 101 (ascii ''AdailSilva'') 0"
proof -
  obtain a0 a1 a2 a3 a4 a5 a6 a7 a8 a9 where
    "stack = [a0, a1, a2, a3, a4, a5, a6, a7, a8, a9]"
    using assms by (auto simp: length_Suc_conv numeral_eq_Suc)
  then show ?thesis
    by (simp add: payloadMyNameVerticalBytes_def payloadMyName_fill_def LMIC_setTxData2_def
        sizeof_u1_def lora_simps)
qed

theorem payloadMyName_independent_of_stack_witness:
  "length (replicate 10 (0xAA :: u1)) = 10 \<and>
   payloadMyNameVerticalBytes (replicate 10 0xAA) = TxData2 101 (ascii ''AdailSilva'') 0"
  using payloadMyName_independent_of_stack [of "replicate 10 0xAA"] by simp

text \<open>
  C21: \<open>payloadSend(port, a, sizeof(a), c)\<close> hands the whole array to LMIC
  exactly when the array is shorter than 256 bytes; a longer array is cut to its
  size modulo 256 by the \<open>uint8_t\<close> parameter.
\<close>

theorem payloadSend_whole_iff:
  "payloadSend port a (sizeof_u1 a) c = TxData2 port a (if c then 1 else 0) \<longleftrightarrow> length a < 256"
proof
  assume eq: "payloadSend port a (sizeof_u1 a) c = TxData2 port a (if c then 1 else 0)"
  then have "take (length a mod 256) a = a"
    by (simp add: payloadSend_bytes unat_sizeof_u1)
  then have "length (take (length a mod 256) a) = length a"
    by simp
  then have "length a \<le> length a mod 256"
    by (simp add: min_def split: if_splits)
  then show "length a < 256"
    using mod_less_divisor [of 256 "length a"] by linarith
next
  assume "length a < 256"
  then show "payloadSend port a (sizeof_u1 a) c = TxData2 port a (if c then 1 else 0)"
    by (simp add: payloadSend_bytes unat_sizeof_u1)
qed

declare relay_uplink_def [lora_simps]

end
