(* ===== verification/Downlinks.thy ===== *)
theory Downlinks
  imports Uplinks
begin

text \<open>
  The downlink side, \<open>src/_downlinks.h\<close>. \<open>downlinksRule\<close> is called once per
  received frame; it is two blocks run one after the other, as in the source:
  the one-byte block (\<open>dataLen == 1\<close>: LED low, LED high, relay uplink) and the
  framed block (\<open>dataLen == 5\<close> on port 255, header \<open>0x55\<close>, tail \<open>0xFF\<close>:
  set the transmit interval, or restart when the reboot guard
  \<open>seqNoUp > 2\<close> allows it). Each block maps the node to the new node and the
  list of effects it caused; \<open>downlinksRule\<close> runs both and concatenates their
  effects. The serial debug prints are not modelled.
\<close>

section \<open>Operations\<close>

text \<open>\<open>resetModule()\<close>: wait 10 s and 16383 us, then restart; it never returns.\<close>

definition resetModule :: "io list" where
  "resetModule = [Delay 10000, DelayMicroseconds 16383, EspRestart]"

text \<open>
  \<open>downlinksControlTime()\<close>: both \<open>RX_DELAY\<close> and \<open>CLOCK_ERROR\<close> are defined,
  so both statements are compiled.
\<close>

definition downlinksControlTime :: "node \<Rightarrow> node" where
  "downlinksControlTime s =
     s\<lparr>lmic := LMIC_setClockError (word_of_nat (MAX_CLOCK_ERROR * CLOCK_ERROR div 100))
                 ((lmic s)\<lparr>rxDelay := RX_DELAY\<rparr>)\<rparr>"

text \<open>
  \<open>uint16_t dat = 256 * frame[b+2] + frame[b+3]\<close>: the bytes are promoted to
  \<open>int\<close>, the sum is converted to \<open>uint16_t\<close>.
\<close>

definition downlink_data :: "u1 \<Rightarrow> u1 \<Rightarrow> u2" where
  "downlink_data hi lo = word_of_nat (256 * unat hi + unat lo)"

text \<open>The block under \<open>if (LMIC.dataLen == 1)\<close>: three independent \<open>if\<close>s.\<close>

definition downlink_single :: "node \<Rightarrow> node \<times> io list" where
  "downlink_single s =
     (if dataLen (lmic s) = 1 then
        let result = frame_at (lmic s) (unat (dataBeg (lmic s)) + 0);
            s1 = (if result = 0 then digitalWrite LED False s else s);
            s2 = (if result = 1 then digitalWrite LED True s1 else s1)
        in (s2, if result = 101 then [relay_uplink] else [])
      else (s, []))"

text \<open>
  The block under \<open>if (LMIC.dataLen == 5 & LMIC.frame[LMIC.dataBeg - 1] == 255)\<close>.
  The assignment to \<open>TX_INTERVAL\<close> comes before the reboot test, which reads
  the global \<open>seqNoUp\<close>.
  The C condition uses the bitwise \<open>&\<close>, so the port byte
  \<open>frame[dataBeg - 1]\<close> is read even when \<open>dataLen \<noteq> 5\<close>; the read has no
  effect, so the conjunction below gives the same result wherever that read is
  inside the buffer (\<open>dataBeg \<ge> 1\<close>, part of \<open>frame_wf\<close>).
\<close>

definition downlink_framed :: "node \<Rightarrow> node \<times> io list" where
  "downlink_framed s =
     (let l = lmic s; b = unat (dataBeg l) in
      if dataLen l = 5 \<and> frame_at l (b - 1) = 255 then
        let header = frame_at l (b + 0);
            cmd = frame_at l (b + 1);
            dat = downlink_data (frame_at l (b + 2)) (frame_at l (b + 3));
            tail = frame_at l (b + 4)
        in if header = 0x55 \<and> tail = 0xFF then
             let s1 = (if cmd = 0x01 then s\<lparr>TX_INTERVAL := ucast dat\<rparr> else s)
             in if cmd = 0x02 \<and> 2 < seqNoUp s1 then (s1, resetModule) else (s1, [])
           else (s, [])
      else (s, []))"

definition downlinksRule :: "node \<Rightarrow> node \<times> io list" where
  "downlinksRule s =
     (let (s1, e1) = downlink_single s;
          (s2, e2) = downlink_framed s1
      in (s2, e1 @ e2))"

section \<open>Evaluation rules\<close>

lemma lmic_downlink_single [simp]: "lmic (fst (downlink_single s)) = lmic s"
  by (simp add: downlink_single_def Let_def)

lemma seqNoUp_downlink_single [simp]: "seqNoUp (fst (downlink_single s)) = seqNoUp s"
  by (simp add: downlink_single_def Let_def)

lemma TX_INTERVAL_downlink_single [simp]: "TX_INTERVAL (fst (downlink_single s)) = TX_INTERVAL s"
  by (simp add: downlink_single_def Let_def)

lemma downlink_single_other [simp]: "dataLen (lmic s) \<noteq> 1 \<Longrightarrow> downlink_single s = (s, [])"
  by (simp add: downlink_single_def)

lemma downlink_framed_other [simp]: "dataLen (lmic s) \<noteq> 5 \<Longrightarrow> downlink_framed s = (s, [])"
  by (simp add: downlink_framed_def Let_def)

lemma downlinksRule_single:
  "dataLen (lmic s) = 1 \<Longrightarrow> downlinksRule s = downlink_single s"
  using lmic_downlink_single [of s] by (cases "downlink_single s") (simp add: downlinksRule_def)

lemma downlinksRule_framed:
  "dataLen (lmic s) = 5 \<Longrightarrow> downlinksRule s = downlink_framed s"
  by (simp add: downlinksRule_def)

lemma downlinksRule_other:
  "dataLen (lmic s) \<noteq> 1 \<Longrightarrow> dataLen (lmic s) \<noteq> 5 \<Longrightarrow> downlinksRule s = (s, [])"
  by (simp add: downlinksRule_def)

lemmas downlinksRule_cases [lora_simps] = downlinksRule_single downlinksRule_framed downlinksRule_other

lemma downlinksRule_eq:
  "downlinksRule s =
     (if dataLen (lmic s) = 1 then downlink_single s
      else if dataLen (lmic s) = 5 then downlink_framed s else (s, []))"
  by (simp add: downlinksRule_cases)

lemmas downlinksRule_unfold = downlinksRule_eq downlink_single_def downlink_framed_def Let_def

lemma seqNoUp_downlinksRule [simp]: "seqNoUp (fst (downlinksRule s)) = seqNoUp s"
  by (simp add: downlinksRule_unfold)

lemma lmic_downlinksRule [simp]: "lmic (fst (downlinksRule s)) = lmic s"
  by (simp add: downlinksRule_unfold)

text \<open>A restart comes only from the reset sequence, and only past the guard.\<close>

lemma restart_in_downlinksRule:
  "EspRestart \<in> set (snd (downlinksRule s)) \<Longrightarrow> 2 < seqNoUp s \<and> snd (downlinksRule s) = resetModule"
  by (simp add: downlinksRule_unfold relay_uplink_def payloadSend_def LMIC_setTxData2_def
      resetModule_def split: if_splits)

text \<open>\<open>TX_INTERVAL\<close> is either kept or set from a 16-bit value.\<close>

lemma TX_INTERVAL_downlinksRule:
  "TX_INTERVAL (fst (downlinksRule s)) = TX_INTERVAL s \<or>
   (\<exists>n :: u2. TX_INTERVAL (fst (downlinksRule s)) = ucast n)"
  by (auto simp add: downlinksRule_unfold)

section \<open>The 16-bit data field\<close>

text \<open>The data field never wraps: it is exactly \<open>256 * hi + lo\<close>.\<close>

lemma unat_downlink_data [simp]:
  "unat (downlink_data hi lo) = 256 * unat hi + unat lo"
  unfolding downlink_data_def by (rule unat_be16)

lemma downlink_data_inject:
  "downlink_data hi lo = downlink_data hi' lo' \<longleftrightarrow> hi = hi' \<and> lo = lo'"
  by (metis unat_downlink_data be16_inject)

lemma unat_ucast_u2_u4 [simp]: "unat (ucast (w :: u2) :: u4) = unat w"
proof -
  have "unat w < 4294967296"
    using unat_u2_less [of w] by linarith
  then show ?thesis
    by (simp add: unsigned_ucast_eq take_bit_nat_eq_self_iff)
qed

section \<open>Behaviour on a delivered frame\<close>

text \<open>
  On a well-formed LMIC buffer the reads of \<open>downlinksRule\<close> are reads of the
  delivered payload and port.
\<close>

lemma rx_payload_conv:
  "frame_wf l \<Longrightarrow> rx_payload l = map (\<lambda>i. frame_at l (unat (dataBeg l) + i)) [0..<unat (dataLen l)]"
  by (rule nth_equalityI) (simp_all add: length_rx_payload rx_payload_nth)

lemma unat_eq_word: "unat (w :: 'a::len word) = n \<Longrightarrow> n < 2 ^ LENGTH('a) \<Longrightarrow> w = word_of_nat n"
  by auto

lemma dataLen_eq_iff: "dataLen l = (k :: u1) \<longleftrightarrow> unat (dataLen l) = unat k"
  by (simp add: unsigned_word_eqI word_unat_eq_iff)

lemma rx_payload_single:
  assumes "frame_wf l" "dataLen l = 1"
  shows "rx_payload l = [frame_at l (unat (dataBeg l))]"
  using assms by (simp add: rx_payload_conv)

lemma rx_payload_five:
  assumes "frame_wf l" "dataLen l = 5"
  shows "rx_payload l = map (\<lambda>i. frame_at l (unat (dataBeg l) + i)) [0, 1, 2, 3, 4]"
proof -
  have "[0..<5] = [0::nat, 1, 2, 3, 4]"
    by (simp add: upt_rec)
  with assms show ?thesis
    by (simp add: rx_payload_conv del: upt_Suc)
qed

text \<open>The one-byte block, in terms of the received byte \<open>v\<close>.\<close>

lemma downlink_single_payload:
  assumes "frame_wf (lmic s)" "rx_payload (lmic s) = [v]"
  shows "downlink_single s =
           (if v = 0 then digitalWrite LED False s else if v = 1 then digitalWrite LED True s else s,
            if v = 101 then [relay_uplink] else [])"
proof -
  have "unat (dataLen (lmic s)) = 1"
    using assms length_rx_payload [of "lmic s"] by simp
  then have len: "dataLen (lmic s) = 1"
    by (simp add: dataLen_eq_iff)
  then have "frame_at (lmic s) (unat (dataBeg (lmic s))) = v"
    using assms rx_payload_single [of "lmic s"] by simp
  with len show ?thesis
    by (simp add: downlink_single_def Let_def)
qed

text \<open>The framed block, in terms of the received port and the five bytes.\<close>

lemma downlink_framed_payload:
  assumes "frame_wf (lmic s)" "rx_payload (lmic s) = [h, c, hi, lo, t]"
  shows "downlink_framed s =
           (if rx_port (lmic s) = 255 \<and> h = 0x55 \<and> t = 0xFF then
              if c = 0x01 then (s\<lparr>TX_INTERVAL := ucast (downlink_data hi lo)\<rparr>, [])
              else if c = 0x02 \<and> 2 < seqNoUp s then (s, resetModule)
              else (s, [])
            else (s, []))"
proof -
  have "unat (dataLen (lmic s)) = 5"
    using assms length_rx_payload [of "lmic s"] by simp
  then have len: "dataLen (lmic s) = 5"
    by (simp add: dataLen_eq_iff)
  then have bytes: "frame_at (lmic s) (unat (dataBeg (lmic s))) = h"
    "frame_at (lmic s) (unat (dataBeg (lmic s)) + 1) = c"
    "frame_at (lmic s) (unat (dataBeg (lmic s)) + 2) = hi"
    "frame_at (lmic s) (unat (dataBeg (lmic s)) + 3) = lo"
    "frame_at (lmic s) (unat (dataBeg (lmic s)) + 4) = t"
    using assms rx_payload_five [of "lmic s"] by simp_all
  show ?thesis
    using len bytes by (simp add: downlink_framed_def rx_port_def Let_def)
qed

text \<open>A payload of any other length leaves the node as it was.\<close>

lemma downlinksRule_other_length:
  assumes "frame_wf (lmic s)" "length (rx_payload (lmic s)) \<notin> {1, 5}"
  shows "downlinksRule s = (s, [])"
proof -
  have "unat (dataLen (lmic s)) \<noteq> 1" "unat (dataLen (lmic s)) \<noteq> 5"
    using assms length_rx_payload [of "lmic s"] by auto
  then show ?thesis
    by (simp add: downlinksRule_other dataLen_eq_iff)
qed

lemma downlinksRule_one:
  assumes "frame_wf (lmic s)" "rx_payload (lmic s) = [v]"
  shows "downlinksRule s = downlink_single s"
proof -
  have "unat (dataLen (lmic s)) = 1"
    using assms length_rx_payload [of "lmic s"] by simp
  then show ?thesis by (simp add: downlinksRule_single dataLen_eq_iff)
qed

lemma downlinksRule_five:
  assumes "frame_wf (lmic s)" "rx_payload (lmic s) = [h, c, hi, lo, t]"
  shows "downlinksRule s = downlink_framed s"
proof -
  have "unat (dataLen (lmic s)) = 5"
    using assms length_rx_payload [of "lmic s"] by simp
  then show ?thesis by (simp add: downlinksRule_framed dataLen_eq_iff)
qed


text \<open>
  The three shapes of a delivered payload, with the block of
  \<open>downlinksRule\<close> that acts on each: the case rule the properties of the
  handler are proved with.
\<close>

lemma downlinksRule_payload_cases:
  assumes "frame_wf (lmic s)"
  obtains (one) v where "rx_payload (lmic s) = [v]" "downlinksRule s = downlink_single s"
  | (five) h c hi lo t where "rx_payload (lmic s) = [h, c, hi, lo, t]"
      "downlinksRule s = downlink_framed s"
  | (other) "length (rx_payload (lmic s)) \<notin> {1, 5}" "downlinksRule s = (s, [])"
proof (cases "length (rx_payload (lmic s))" rule: linorder_cases [of _ 1])
  case less
  with assms show ?thesis by (intro other) (simp_all add: downlinksRule_other_length)
next
  case equal
  then obtain v where p: "rx_payload (lmic s) = [v]"
    by (auto simp: length_Suc_conv)
  with assms show ?thesis by (intro one [of v]) (simp_all add: downlinksRule_one)
next
  case greater
  show ?thesis
  proof (cases "length (rx_payload (lmic s)) = 5")
    case True
    then obtain h c hi lo t where p: "rx_payload (lmic s) = [h, c, hi, lo, t]"
      by (auto simp: length_Suc_conv numeral_eq_Suc)
    with assms show ?thesis by (intro five [of h c hi lo t]) (simp_all add: downlinksRule_five)
  next
    case False
    with greater assms show ?thesis by (intro other) (simp_all add: downlinksRule_other_length)
  qed
qed

section \<open>Properties of \<open>downlinksRule\<close>\<close>

text \<open>
  C4: the reboot guard. A framed reboot command (\<open>55 02 hi lo FF\<close> on port
  255) restarts the module, after the 10 s and 16383 us delays, exactly when the
  uplink counter \<open>seqNoUp\<close> exceeds 2; otherwise it is ignored. The data
  bytes play no part and the node's state is left as it was.
\<close>

theorem reboot_command_gate:
  assumes "frame_wf (lmic s)" "rx_port (lmic s) = 255"
    "rx_payload (lmic s) = [0x55, 0x02, hi, lo, 0xFF]"
  shows "downlinksRule s = (s, if 2 < seqNoUp s then resetModule else [])"
  using assms by (simp add: downlinksRule_five downlink_framed_payload)

theorem reboot_command_gate_witness:
  "frame_wf (lmic (node_boot\<lparr>seqNoUp := 5, lmic := lmic_receive example_hdr 255 [0x55, 0x02, 0, 0, 0xFF] lmic_init\<rparr>))
   \<and> rx_port (lmic (node_boot\<lparr>seqNoUp := 5, lmic := lmic_receive example_hdr 255 [0x55, 0x02, 0, 0, 0xFF] lmic_init\<rparr>)) = 255
   \<and> rx_payload (lmic (node_boot\<lparr>seqNoUp := 5, lmic := lmic_receive example_hdr 255 [0x55, 0x02, 0, 0, 0xFF] lmic_init\<rparr>))
       = [0x55, 0x02, 0, 0, 0xFF]
   \<and> snd (downlinksRule (node_boot\<lparr>seqNoUp := 5, lmic := lmic_receive example_hdr 255 [0x55, 0x02, 0, 0, 0xFF] lmic_init\<rparr>))
       = resetModule"
proof -
  have d: "frame_wf (lmic_receive example_hdr 255 [0x55, 0x02, 0, 0, 0xFF] lmic_init)"
    "rx_port (lmic_receive example_hdr 255 [0x55, 0x02, 0, 0, 0xFF] lmic_init) = 255"
    "rx_payload (lmic_receive example_hdr 255 [0x55, 0x02, 0, 0, 0xFF] lmic_init) = [0x55, 0x02, 0, 0, 0xFF]"
    by (simp_all add: lmic_receive_delivers example_hdr_def)
  show ?thesis
    using d reboot_command_gate [of "node_boot\<lparr>seqNoUp := 5, lmic := lmic_receive example_hdr 255 [0x55, 0x02, 0, 0, 0xFF] lmic_init\<rparr>" 0 0]
    by simp
qed

text \<open>
  C7: a framed set-interval command (\<open>55 01 hi lo FF\<close> on port 255) sets
  \<open>TX_INTERVAL\<close> to the big-endian value \<open>256 * hi + lo\<close>, exactly (the
  \<open>uint16_t\<close> never wraps and widens to \<open>unsigned int\<close> unchanged), causes
  no effect and changes nothing else.
\<close>

theorem set_interval_command:
  assumes "frame_wf (lmic s)" "rx_port (lmic s) = 255"
    "rx_payload (lmic s) = [0x55, 0x01, hi, lo, 0xFF]"
  shows "downlinksRule s = (s\<lparr>TX_INTERVAL := word_of_nat (256 * unat hi + unat lo)\<rparr>, [])"
proof -
  have l: "unat (ucast (downlink_data hi lo) :: u4) = 256 * unat hi + unat lo"
    by simp
  have r: "unat (word_of_nat (256 * unat hi + unat lo) :: u4) = 256 * unat hi + unat lo"
    using be16_less [of hi lo] by (simp only: unat_of_nat) simp
  from l r have "ucast (downlink_data hi lo) = (word_of_nat (256 * unat hi + unat lo) :: u4)"
    by (simp only: word_unat_eq_iff)
  with assms show ?thesis
    by (simp add: downlinksRule_five downlink_framed_payload)
qed

theorem set_interval_command_witness:
  "frame_wf (lmic (node_boot\<lparr>lmic := lmic_receive example_hdr 255 [0x55, 0x01, 0x00, 0x1E, 0xFF] lmic_init\<rparr>))
   \<and> rx_port (lmic (node_boot\<lparr>lmic := lmic_receive example_hdr 255 [0x55, 0x01, 0x00, 0x1E, 0xFF] lmic_init\<rparr>)) = 255
   \<and> rx_payload (lmic (node_boot\<lparr>lmic := lmic_receive example_hdr 255 [0x55, 0x01, 0x00, 0x1E, 0xFF] lmic_init\<rparr>))
       = [0x55, 0x01, 0x00, 0x1E, 0xFF]
   \<and> TX_INTERVAL (fst (downlinksRule (node_boot\<lparr>lmic := lmic_receive example_hdr 255 [0x55, 0x01, 0x00, 0x1E, 0xFF] lmic_init\<rparr>))) = 30"
proof -
  have d: "frame_wf (lmic_receive example_hdr 255 [0x55, 0x01, 0x00, 0x1E, 0xFF] lmic_init)"
    "rx_port (lmic_receive example_hdr 255 [0x55, 0x01, 0x00, 0x1E, 0xFF] lmic_init) = 255"
    "rx_payload (lmic_receive example_hdr 255 [0x55, 0x01, 0x00, 0x1E, 0xFF] lmic_init) = [0x55, 0x01, 0x00, 0x1E, 0xFF]"
    by (simp_all add: lmic_receive_delivers example_hdr_def)
  show ?thesis
    using d set_interval_command [where s = "node_boot\<lparr>lmic := lmic_receive example_hdr 255 [0x55, 0x01, 0x00, 0x1E, 0xFF] lmic_init\<rparr>" and hi = 0 and lo = "0x1E"]
    by simp
qed


text \<open>
  C8: a one-byte frame, on any port, with value 0 drives the LED pin low, with
  value 1 drives it high, with value 101 queues the relay uplink; any other value
  changes nothing and causes no effect.
\<close>

theorem single_byte_command:
  assumes "frame_wf (lmic s)" "rx_payload (lmic s) = [v]"
  shows "downlinksRule s =
           (if v = 0 then digitalWrite LED False s else if v = 1 then digitalWrite LED True s else s,
            if v = 101 then [relay_uplink] else [])"
  using assms by (simp add: downlinksRule_one downlink_single_payload)

theorem single_byte_command_witness:
  "frame_wf (lmic (node_boot\<lparr>lmic := lmic_receive example_hdr 7 [1] lmic_init\<rparr>))
   \<and> rx_payload (lmic (node_boot\<lparr>lmic := lmic_receive example_hdr 7 [1] lmic_init\<rparr>)) = [1]
   \<and> gpio (fst (downlinksRule (node_boot\<lparr>lmic := lmic_receive example_hdr 7 [1] lmic_init\<rparr>))) LED
   \<and> snd (downlinksRule (node_boot\<lparr>lmic := lmic_receive example_hdr 7 [1] lmic_init\<rparr>)) = []"
proof -
  have d: "frame_wf (lmic_receive example_hdr 7 [1] lmic_init)"
    "rx_payload (lmic_receive example_hdr 7 [1] lmic_init) = [1]"
    by (simp_all add: lmic_receive_delivers example_hdr_def)
  show ?thesis
    using d single_byte_command [where s = "node_boot\<lparr>lmic := lmic_receive example_hdr 7 [1] lmic_init\<rparr>" and v = 1]
    by simp
qed

text \<open>
  C9: a five-byte frame on any port other than 255 is ignored, whatever its
  bytes: the framed protocol is bound to port 255.
\<close>

theorem framed_command_other_port:
  assumes "frame_wf (lmic s)" "rx_payload (lmic s) = [h, c, hi, lo, t]" "rx_port (lmic s) \<noteq> 255"
  shows "downlinksRule s = (s, [])"
  using assms by (simp add: downlinksRule_five downlink_framed_payload)

theorem framed_command_other_port_witness:
  "frame_wf (lmic (node_boot\<lparr>lmic := lmic_receive example_hdr 1 [0x55, 0x01, 0x00, 0x1E, 0xFF] lmic_init\<rparr>))
   \<and> rx_payload (lmic (node_boot\<lparr>lmic := lmic_receive example_hdr 1 [0x55, 0x01, 0x00, 0x1E, 0xFF] lmic_init\<rparr>))
       = [0x55, 0x01, 0x00, 0x1E, 0xFF]
   \<and> rx_port (lmic (node_boot\<lparr>lmic := lmic_receive example_hdr 1 [0x55, 0x01, 0x00, 0x1E, 0xFF] lmic_init\<rparr>)) \<noteq> 255
   \<and> TX_INTERVAL (fst (downlinksRule (node_boot\<lparr>lmic := lmic_receive example_hdr 1 [0x55, 0x01, 0x00, 0x1E, 0xFF] lmic_init\<rparr>))) = 15"
proof -
  have d: "frame_wf (lmic_receive example_hdr 1 [0x55, 0x01, 0x00, 0x1E, 0xFF] lmic_init)"
    "rx_payload (lmic_receive example_hdr 1 [0x55, 0x01, 0x00, 0x1E, 0xFF] lmic_init) = [0x55, 0x01, 0x00, 0x1E, 0xFF]"
    "rx_port (lmic_receive example_hdr 1 [0x55, 0x01, 0x00, 0x1E, 0xFF] lmic_init) = 1"
    by (simp_all add: lmic_receive_delivers example_hdr_def)
  show ?thesis
    using d framed_command_other_port [where s = "node_boot\<lparr>lmic := lmic_receive example_hdr 1 [0x55, 0x01, 0x00, 0x1E, 0xFF] lmic_init\<rparr>"
      and h = "0x55" and c = 1 and hi = 0 and lo = "0x1E" and t = "0xFF"]
    by (simp add: node_boot_def)
qed

text \<open>
  C17: whatever frame arrives, \<open>downlinksRule\<close> writes only \<open>TX_INTERVAL\<close>
  and the LED pin: the uplink counter, the join status, the LMIC state and every
  other pin are left as they were.
\<close>

theorem downlinksRule_changes_only:
  "fst (downlinksRule s) =
     s\<lparr>TX_INTERVAL := TX_INTERVAL (fst (downlinksRule s)),
       gpio := (gpio s)(LED := gpio (fst (downlinksRule s)) LED)\<rparr>"
  by (simp add: downlinksRule_unfold digitalWrite_def)

text \<open>
  C18: each frame causes at most one effect class: nothing, the relay uplink, or
  the reset sequence; never both an uplink and a restart.
\<close>

theorem downlinksRule_effect_classes:
  "snd (downlinksRule s) \<in> {[], [relay_uplink], resetModule}"
  by (simp add: downlinksRule_unfold)

end
