(* ===== verification/Host.thy ===== *)
theory Host
  imports Downlinks
begin

text \<open>
  The host around the sources: the sketch's main file (event handler and
  loop), which is not under \<open>src/\<close> and is modelled from the specification.
  LMIC reports two kinds of events that matter here: a completed uplink, after
  which the session's uplink counter \<open>seqNoUp\<close> has grown by one (a 32-bit
  \<open>unsigned int\<close>, so it wraps), and a received frame, which LMIC stores in its
  frame buffer before the sketch calls \<open>downlinksRule\<close>. When
  \<open>downlinksRule\<close> ends in \<open>esp_restart()\<close>, the node boots again: every
  global returns to its initialiser, the LMIC state and the pins are reset, and
  by the time the next downlink can arrive the stack has re-seeded the counter
  to a small value \<open>reseed\<close> (2 in the specification).

  The properties are about runs of the host: the reboot guard prevents a
  reboot loop (no downlink redelivery alone can restart the node a second time),
  the number of restarts never exceeds the number of completed uplinks, and,
  by rule induction on \<open>host_reach\<close>, the transmit interval stays within 16
  bits in every reachable state. In the other direction the reboot command
  stays live: from any state, at most three completed uplinks make it take
  effect, so the guard does not prevent a second restart once an uplink has
  completed.
\<close>

section \<open>Events, steps and runs\<close>

datatype event =
    TxComplete
  | RxFrame "u1 list" u1 "u1 list"

text \<open>The node after \<open>esp_restart()\<close> and the boot sequence.\<close>

definition node_restart :: "u4 \<Rightarrow> node" where
  "node_restart reseed = node_boot\<lparr>seqNoUp := reseed\<rparr>"

text \<open>
  One event. A frame is delivered only when it fits LMIC's 8-bit indices (LoRaWAN
  frames are at most 255 bytes, so LMIC never delivers another).
\<close>

fun host_step :: "u4 \<Rightarrow> node \<Rightarrow> event \<Rightarrow> node \<times> io list" where
  "host_step reseed s TxComplete = (s\<lparr>seqNoUp := seqNoUp s + 1\<rparr>, [])"
| "host_step reseed s (RxFrame hdr port payload) =
     (if length hdr < 255 \<and> length payload < 256 then
        let (s', ios) = downlinksRule (s\<lparr>lmic := lmic_receive hdr port payload (lmic s)\<rparr>)
        in (if EspRestart \<in> set ios then node_restart reseed else s', ios)
      else (s, []))"

fun host_run :: "u4 \<Rightarrow> node \<Rightarrow> event list \<Rightarrow> node \<times> io list" where
  "host_run reseed s [] = (s, [])"
| "host_run reseed s (e # es) =
     (let (s1, ios1) = host_step reseed s e;
          (s2, ios2) = host_run reseed s1 es
      in (s2, ios1 @ ios2))"

text \<open>The states the node can be in, from power-on.\<close>

inductive host_reach :: "u4 \<Rightarrow> node \<Rightarrow> bool" for reseed where
  boot: "host_reach reseed node_boot"
| step: "host_reach reseed s \<Longrightarrow> host_reach reseed (fst (host_step reseed s e))"

text \<open>One unit of credit for a reboot: the guard is open.\<close>

definition guard_open :: "node \<Rightarrow> nat" where
  "guard_open s = (if 2 < seqNoUp s then 1 else 0)"

section \<open>Step lemmas\<close>

lemma host_run_Cons_split:
  "host_run r s (e # es) =
     (fst (host_run r (fst (host_step r s e)) es), snd (host_step r s e) @ snd (host_run r (fst (host_step r s e)) es))"
  by (simp add: Let_def split_def)

lemma host_step_rx:
  "host_step r s (RxFrame hdr port payload) =
     (if length hdr < 255 \<and> length payload < 256 then
        (if EspRestart \<in> set (snd (downlinksRule (s\<lparr>lmic := lmic_receive hdr port payload (lmic s)\<rparr>)))
         then node_restart r else fst (downlinksRule (s\<lparr>lmic := lmic_receive hdr port payload (lmic s)\<rparr>)),
         snd (downlinksRule (s\<lparr>lmic := lmic_receive hdr port payload (lmic s)\<rparr>)))
      else (s, []))"
  by (simp add: split_def)

declare host_step.simps(2) [simp del] host_run.simps(2) [simp del]

lemma seqNoUp_node_restart [simp]: "seqNoUp (node_restart r) = r"
  by (simp add: node_restart_def)

lemma TX_INTERVAL_node_restart [simp]: "TX_INTERVAL (node_restart r) = 15"
  by (simp add: node_restart_def node_boot_def)

lemma host_step_rx_no_restart:
  assumes "\<not> 2 < seqNoUp s"
  shows "host_step r s (RxFrame hdr port payload) =
           (if length hdr < 255 \<and> length payload < 256
            then downlinksRule (s\<lparr>lmic := lmic_receive hdr port payload (lmic s)\<rparr>) else (s, []))"
proof -
  have "EspRestart \<notin> set (snd (downlinksRule (s\<lparr>lmic := lmic_receive hdr port payload (lmic s)\<rparr>)))"
    using assms restart_in_downlinksRule by fastforce
  then show ?thesis
    by (simp add: host_step_rx)
qed

text \<open>A frame never raises the counter; a restart only happens past the guard.\<close>

lemma seqNoUp_host_step_rx:
  "\<not> 2 < seqNoUp s \<Longrightarrow> seqNoUp (fst (host_step r s (RxFrame hdr port payload))) = seqNoUp s"
  by (simp add: host_step_rx_no_restart)

lemma restarts_host_step_rx:
  "\<not> 2 < seqNoUp s \<Longrightarrow> restarts (snd (host_step r s (RxFrame hdr port payload))) = 0"
  using restart_in_downlinksRule [of "s\<lparr>lmic := lmic_receive hdr port payload (lmic s)\<rparr>"]
  by (auto simp: host_step_rx_no_restart restarts_zero_iff)

text \<open>The credit argument for one step.\<close>

lemma host_step_credit:
  assumes "unat r \<le> 2"
  shows "restarts (snd (host_step r s e)) + guard_open (fst (host_step r s e))
           \<le> (if e = TxComplete then 1 else 0) + guard_open s"
proof (cases e)
  case TxComplete
  then show ?thesis by (simp add: guard_open_def)
next
  case (RxFrame hdr port payload)
  show ?thesis
  proof (cases "2 < seqNoUp s")
    case False
    then show ?thesis
      using RxFrame by (simp add: restarts_host_step_rx guard_open_def seqNoUp_host_step_rx)
  next
    case True
    let ?s' = "s\<lparr>lmic := lmic_receive hdr port payload (lmic s)\<rparr>"
    have "\<not> 2 < r"
      using assms by (simp add: word_less_nat_alt)
    moreover have "restarts (snd (downlinksRule ?s')) \<le> 1"
    proof (cases "EspRestart \<in> set (snd (downlinksRule ?s'))")
      case True
      then have "snd (downlinksRule ?s') = resetModule"
        using restart_in_downlinksRule by blast
      then show ?thesis by (simp add: resetModule_def)
    next
      case False
      then have "restarts (snd (downlinksRule ?s')) = 0"
        by (simp add: restarts_zero_iff)
      then show ?thesis by simp
    qed
    ultimately show ?thesis
      using RxFrame True by (auto simp: guard_open_def host_step_rx restarts_zero_iff)
  qed
qed

lemma host_run_credit:
  assumes "unat r \<le> 2"
  shows "restarts (snd (host_run r s es)) + guard_open (fst (host_run r s es))
           \<le> count_list es TxComplete + guard_open s"
proof (induction es arbitrary: s)
  case Nil
  then show ?case by simp
next
  case (Cons e es)
  have "restarts (snd (host_run r (fst (host_step r s e)) es)) + guard_open (fst (host_run r (fst (host_step r s e)) es))
          \<le> count_list es TxComplete + guard_open (fst (host_step r s e))"
    by (rule Cons.IH)
  moreover have "restarts (snd (host_step r s e)) + guard_open (fst (host_step r s e))
                   \<le> (if e = TxComplete then 1 else 0) + guard_open s"
    using assms by (rule host_step_credit)
  moreover have "count_list (e # es) TxComplete = (if e = TxComplete then 1 else 0) + count_list es TxComplete"
    by simp
  ultimately show ?case
    unfolding host_run_Cons_split fst_conv snd_conv restarts_append by linarith
qed

text \<open>The reboot command as a host event.\<close>

lemma host_step_reboot_frame:
  assumes "length hdr < 255"
  shows "host_step r s (RxFrame hdr 255 [0x55, 0x02, hi, lo, 0xFF]) =
           (if 2 < seqNoUp s then (node_restart r, resetModule)
            else (s\<lparr>lmic := lmic_receive hdr 255 [0x55, 0x02, hi, lo, 0xFF] (lmic s)\<rparr>, []))"
proof -
  let ?s' = "s\<lparr>lmic := lmic_receive hdr 255 [0x55, 0x02, hi, lo, 0xFF] (lmic s)\<rparr>"
  have "frame_wf (lmic ?s')" "rx_port (lmic ?s') = 255" "rx_payload (lmic ?s') = [0x55, 0x02, hi, lo, 0xFF]"
    using assms by (simp_all add: lmic_receive_delivers)
  then have "downlinksRule ?s' = (?s', if 2 < seqNoUp s then resetModule else [])"
    by (simp add: downlinksRule_five downlink_framed_payload)
  with assms show ?thesis
    by (simp add: host_step_rx resetModule_def)
qed

lemma TX_INTERVAL_host_step:
  "TX_INTERVAL (fst (host_step r s e)) = TX_INTERVAL s \<or> TX_INTERVAL (fst (host_step r s e)) = 15
   \<or> (\<exists>n :: u2. TX_INTERVAL (fst (host_step r s e)) = ucast n)"
proof (cases e)
  case TxComplete
  then show ?thesis by simp
next
  case (RxFrame hdr port payload)
  then show ?thesis
    using TX_INTERVAL_downlinksRule [of "s\<lparr>lmic := lmic_receive hdr port payload (lmic s)\<rparr>"]
    by (auto simp: host_step_rx)
qed

text \<open>A run of completed uplinks only advances the counter.\<close>

lemma host_run_uplinks:
  "host_run r s (replicate k TxComplete @ es) = host_run r (s\<lparr>seqNoUp := seqNoUp s + word_of_nat k\<rparr>) es"
proof (induction k arbitrary: s)
  case 0
  then show ?case by simp
next
  case (Suc k)
  have "host_run r s (replicate (Suc k) TxComplete @ es)
        = host_run r (s\<lparr>seqNoUp := seqNoUp s + 1\<rparr>) (replicate k TxComplete @ es)"
    by (simp add: host_run_Cons_split)
  also have "\<dots> = host_run r (s\<lparr>seqNoUp := seqNoUp s + word_of_nat (Suc k)\<rparr>) es"
    by (simp add: Suc.IH add.assoc)
  finally show ?case .
qed

section \<open>Properties of the host\<close>

text \<open>
  C1: no reboot loop. From any state whose uplink counter is at most 2 (in
  particular the state right after a restart), frames alone, however often the
  network redelivers a reboot command, never restart the node: a restart needs a
  completed uplink first.
\<close>

theorem no_reboot_loop:
  assumes "unat (seqNoUp s) \<le> 2" "TxComplete \<notin> set es"
  shows "EspRestart \<notin> set (snd (host_run r s es))"
  using assms
proof (induction es arbitrary: s)
  case Nil
  then show ?case by simp
next
  case (Cons e es)
  then obtain hdr port payload where e: "e = RxFrame hdr port payload"
    by (cases e) auto
  have closed: "\<not> 2 < seqNoUp s"
    using Cons.prems(1) by (simp add: word_less_nat_alt)
  then have "EspRestart \<notin> set (snd (host_step r s e))"
    using e restarts_host_step_rx [of s r hdr port payload] by (simp add: restarts_zero_iff)
  moreover have "EspRestart \<notin> set (snd (host_run r (fst (host_step r s e)) es))"
    using Cons.prems closed e by (intro Cons.IH) (simp_all add: seqNoUp_host_step_rx)
  ultimately show ?case
    by (simp add: host_run_Cons_split)
qed

theorem no_reboot_loop_witness:
  "unat (seqNoUp (node_restart 2)) \<le> 2
   \<and> TxComplete \<notin> set [RxFrame example_hdr 255 [0x55, 0x02, 0, 0, 0xFF], RxFrame example_hdr 255 [0x55, 0x02, 0, 0, 0xFF]]
   \<and> EspRestart \<notin> set (snd (host_run 2 (node_restart 2)
         [RxFrame example_hdr 255 [0x55, 0x02, 0, 0, 0xFF], RxFrame example_hdr 255 [0x55, 0x02, 0, 0, 0xFF]]))"
  using no_reboot_loop [of "node_restart 2" "[RxFrame example_hdr 255 [0x55, 0x02, 0, 0, 0xFF], RxFrame example_hdr 255 [0x55, 0x02, 0, 0, 0xFF]]" 2]
  by simp

text \<open>
  C2: over any run that starts with the counter at most 2, and with a stack that
  re-seeds the counter to at most 2 on a restart, the node restarts at most as
  often as uplinks complete.
\<close>

theorem restarts_le_uplinks:
  assumes "unat r \<le> 2" "unat (seqNoUp s) \<le> 2"
  shows "restarts (snd (host_run r s es)) \<le> count_list es TxComplete"
proof -
  have "guard_open s = 0"
    using assms(2) by (simp add: guard_open_def word_less_nat_alt)
  then show ?thesis
    using host_run_credit [OF assms(1), of s es] by linarith
qed

theorem restarts_le_uplinks_witness:
  "unat (2 :: u4) \<le> 2 \<and> unat (seqNoUp node_boot) \<le> 2
   \<and> restarts (snd (host_run 2 node_boot [TxComplete, TxComplete, TxComplete,
        RxFrame example_hdr 255 [0x55, 0x02, 0, 0, 0xFF], RxFrame example_hdr 255 [0x55, 0x02, 0, 0, 0xFF]])) \<le> 3"
  using restarts_le_uplinks [of 2 node_boot "[TxComplete, TxComplete, TxComplete,
        RxFrame example_hdr 255 [0x55, 0x02, 0, 0, 0xFF], RxFrame example_hdr 255 [0x55, 0x02, 0, 0, 0xFF]]"]
  by (simp add: node_boot_def)

text \<open>
  C19: in every state reachable from power-on, the 32-bit \<open>TX_INTERVAL\<close> holds
  a value that fits in 16 bits: it starts at 15, a restart puts it back to 15,
  and the only assignment copies the \<open>uint16_t\<close> data field.
\<close>

theorem tx_interval_16bit:
  assumes "host_reach r s"
  shows "unat (TX_INTERVAL s) < 65536"
  using assms
proof (induction rule: host_reach.induct)
  case boot
  then show ?case by (simp add: node_boot_def)
next
  case (step s e)
  then show ?case
    using TX_INTERVAL_host_step [of r s e] by auto
qed

theorem tx_interval_16bit_witness:
  "host_reach 2 (fst (host_step 2 node_boot (RxFrame example_hdr 255 [0x55, 0x01, 0xFF, 0xFF, 0xFF])))
   \<and> unat (TX_INTERVAL (fst (host_step 2 node_boot (RxFrame example_hdr 255 [0x55, 0x01, 0xFF, 0xFF, 0xFF])))) < 65536"
proof -
  have r: "host_reach 2 (fst (host_step 2 node_boot (RxFrame example_hdr 255 [0x55, 0x01, 0xFF, 0xFF, 0xFF])))"
    by (rule host_reach.step [OF host_reach.boot])
  show ?thesis
    using r tx_interval_16bit [OF r] by simp
qed

text \<open>
  C3: liveness of the reboot command. From any state, whatever its counter,
  at most three completed uplinks followed by the framed reboot command on
  port 255 restart the node.
\<close>

theorem reboot_eventually:
  assumes "length hdr < 255"
  shows "\<exists>k \<le> 3. EspRestart \<in> set (snd (host_run r s (replicate k TxComplete @ [RxFrame hdr 255 [0x55, 0x02, hi, lo, 0xFF]])))"
proof (cases "2 < seqNoUp s")
  case True
  then have "EspRestart \<in> set (snd (host_run r s (replicate 0 TxComplete @ [RxFrame hdr 255 [0x55, 0x02, hi, lo, 0xFF]])))"
    using assms by (simp add: host_run_Cons_split host_step_reboot_frame resetModule_def)
  then show ?thesis by blast
next
  case False
  then have m: "unat (seqNoUp s) \<le> 2"
    by (simp add: word_less_nat_alt)
  have "seqNoUp s + word_of_nat (3 - unat (seqNoUp s)) = word_of_nat (unat (seqNoUp s) + (3 - unat (seqNoUp s)))"
    by simp
  also have "\<dots> = 3"
    using m by simp
  finally have up: "seqNoUp s + word_of_nat (3 - unat (seqNoUp s)) = 3" .
  have "EspRestart \<in> set (snd (host_run r s (replicate (3 - unat (seqNoUp s)) TxComplete @ [RxFrame hdr 255 [0x55, 0x02, hi, lo, 0xFF]])))"
    using assms by (simp add: host_run_uplinks up host_run_Cons_split host_step_reboot_frame resetModule_def)
  then show ?thesis by (intro exI [of _ "3 - unat (seqNoUp s)"]) simp
qed
theorem reboot_eventually_witness:
  "length example_hdr < 255
   \<and> (\<exists>k \<le> 3. EspRestart \<in> set (snd (host_run 2 (node_restart 2)
         (replicate k TxComplete @ [RxFrame example_hdr 255 [0x55, 0x02, 0, 0, 0xFF]]))))"
proof -
  have h: "length example_hdr < 255"
    by (simp add: example_hdr_def)
  show ?thesis
    using h reboot_eventually [OF h, where r = 2 and s = "node_restart 2" and hi = 0 and lo = 0] by blast
qed


end
