(* ===== verification/Downlink_Spec.thy ===== *)
theory Downlink_Spec
  imports Downlinks
begin

text \<open>
  The downlink command protocol as the specification describes it: a frame
  (port and payload) is decoded into one \<open>command\<close>; the dispatcher applies
  the command to the device state (transmit interval, output level) and returns
  one \<open>effect\<close>; the reboot guard \<open>mayReboot\<close> gates the reboot. The decoder
  \<open>decode\<close> is the classification \<open>downlinksRule\<close> performs, port test
  included; \<open>decode_spec\<close> is the decoder of the specification's section 4.1,
  which does not look at the port. The main result is that \<open>downlinksRule\<close>
  on a delivered frame is exactly decode-then-dispatch on the abstract state,
  concretised back into the node.
\<close>

section \<open>Commands, effects and the abstract device state\<close>

datatype command =
    SetOutputLow
  | SetOutputHigh
  | TriggerRelayUplink
  | SetInterval u2
  | Reboot
  | Unknown

datatype effect =
    NoEffect
  | SendUplink u1 "u1 list" bool
  | ScheduleReboot

record device_state =
  transmitIntervalSeconds :: u4
  outputEnabled :: bool

text \<open>Why a frame is turned away (section 7 of the specification).\<close>

datatype reject =
    MalformedFrame
  | UnknownSubcommand
  | UnrecognizedValue
  | RebootSuppressed

section \<open>Decoding\<close>

text \<open>The classification made by the nested conditionals of \<open>downlinksRule\<close>.\<close>

fun decode :: "u1 \<Rightarrow> u1 list \<Rightarrow> command" where
  "decode port [v] =
     (if v = 0 then SetOutputLow
      else if v = 1 then SetOutputHigh
      else if v = 101 then TriggerRelayUplink
      else Unknown)"
| "decode port [h, c, hi, lo, t] =
     (if port = 255 \<and> h = 0x55 \<and> t = 0xFF then
        if c = 0x01 then SetInterval (downlink_data hi lo)
        else if c = 0x02 then Reboot
        else Unknown
      else Unknown)"
| "decode port _ = Unknown"

text \<open>The decoder of the specification's section 4.1, which ignores the port.\<close>

fun decode_spec :: "u1 list \<Rightarrow> command" where
  "decode_spec [v] =
     (if v = 0 then SetOutputLow
      else if v = 1 then SetOutputHigh
      else if v = 101 then TriggerRelayUplink
      else Unknown)"
| "decode_spec [h, c, hi, lo, t] =
     (if h = 0x55 \<and> t = 0xFF then
        if c = 0x01 then SetInterval (downlink_data hi lo)
        else if c = 0x02 then Reboot
        else Unknown
      else Unknown)"
| "decode_spec _ = Unknown"

text \<open>
  The wire encoding of section 6: single-byte commands as one byte, framed
  commands as \<open>55 cmd hi lo FF\<close> (the reboot's data bytes are sent as zero).
\<close>

fun encode :: "command \<Rightarrow> u1 list option" where
  "encode SetOutputLow = Some [0]"
| "encode SetOutputHigh = Some [1]"
| "encode TriggerRelayUplink = Some [101]"
| "encode (SetInterval n) =
     Some [0x55, 0x01, word_of_nat (unat n div 256), word_of_nat (unat n mod 256), 0xFF]"
| "encode Reboot = Some [0x55, 0x02, 0, 0, 0xFF]"
| "encode Unknown = None"

section \<open>Guard, dispatcher and the correspondence with the node\<close>

text \<open>The reboot guard, \<open>seqNoUp > 2\<close> in the source.\<close>

definition mayReboot :: "u4 \<Rightarrow> bool" where
  "mayReboot upCount \<longleftrightarrow> 2 < upCount"

fun dispatch :: "command \<Rightarrow> device_state \<Rightarrow> u4 \<Rightarrow> device_state \<times> effect" where
  "dispatch SetOutputLow d up = (d\<lparr>outputEnabled := False\<rparr>, NoEffect)"
| "dispatch SetOutputHigh d up = (d\<lparr>outputEnabled := True\<rparr>, NoEffect)"
| "dispatch TriggerRelayUplink d up =
     (d, SendUplink UPLINK_PORT payloadRelayUplink (c_bool UPLINK_CONFIRMED))"
| "dispatch (SetInterval n) d up = (d\<lparr>transmitIntervalSeconds := ucast n\<rparr>, NoEffect)"
| "dispatch Reboot d up = (d, if mayReboot up then ScheduleReboot else NoEffect)"
| "dispatch Unknown d up = (d, NoEffect)"

text \<open>Why \<open>decode\<close>/\<open>dispatch\<close> turn a frame away, if they do.\<close>

fun rejection :: "u1 \<Rightarrow> u1 list \<Rightarrow> u4 \<Rightarrow> reject option" where
  "rejection port [v] up = (if v \<in> {0, 1, 101} then None else Some UnrecognizedValue)"
| "rejection port [h, c, hi, lo, t] up =
     (if port = 255 \<and> h = 0x55 \<and> t = 0xFF then
        if c = 0x01 then None
        else if c = 0x02 then (if mayReboot up then None else Some RebootSuppressed)
        else Some UnknownSubcommand
      else Some MalformedFrame)"
| "rejection port _ up = Some MalformedFrame"

definition abs_node :: "node \<Rightarrow> device_state" where
  "abs_node s = \<lparr>transmitIntervalSeconds = TX_INTERVAL s, outputEnabled = gpio s LED\<rparr>"

definition conc_node :: "node \<Rightarrow> device_state \<Rightarrow> node" where
  "conc_node s d = s\<lparr>TX_INTERVAL := transmitIntervalSeconds d, gpio := (gpio s)(LED := outputEnabled d)\<rparr>"

fun effect_io :: "effect \<Rightarrow> io list" where
  "effect_io NoEffect = []"
| "effect_io (SendUplink port data c) = [payloadSend port data (sizeof_u1 data) c]"
| "effect_io ScheduleReboot = resetModule"

section \<open>Properties\<close>

lemma decode_other_length:
  "length p \<noteq> 1 \<Longrightarrow> length p \<noteq> 5 \<Longrightarrow> decode port p = Unknown"
  by (cases "(port, p)" rule: decode.cases) auto

lemma decode_spec_other_length:
  "length p \<noteq> 1 \<Longrightarrow> length p \<noteq> 5 \<Longrightarrow> decode_spec p = Unknown"
  by (cases p rule: decode_spec.cases) auto

lemma conc_abs_node [simp]: "conc_node s (abs_node s) = s"
  by (simp add: conc_node_def abs_node_def)

text \<open>The correspondence of \<open>downlinksRule\<close> with decode-then-dispatch, shared by the refinement results.\<close>

lemma downlinksRule_dispatch:
  assumes "frame_wf (lmic s)"
  shows "downlinksRule s =
           (let (d, e) = dispatch (decode (rx_port (lmic s)) (rx_payload (lmic s))) (abs_node s) (seqNoUp s)
            in (conc_node s d, effect_io e))"
  using assms
proof (cases rule: downlinksRule_payload_cases)
  case (one v)
  with assms show ?thesis
    by (simp add: downlink_single_payload relay_uplink_def conc_node_def abs_node_def digitalWrite_def)
next
  case (five h c hi lo t)
  with assms show ?thesis
    by (simp add: downlink_framed_payload conc_node_def abs_node_def mayReboot_def)
next
  case other
  then show ?thesis by (simp add: decode_other_length)
qed

text \<open>
  C5: refinement. On every delivered frame, \<open>downlinksRule\<close> is the
  specification's decode-then-dispatch: decode the port and payload, dispatch the
  command on the abstract device state with the uplink counter, write the new
  abstract state back into the node and perform the effect.
\<close>

theorem downlinksRule_refines_dispatch:
  assumes "frame_wf (lmic s)"
  shows "downlinksRule s =
           (let (d, e) = dispatch (decode (rx_port (lmic s)) (rx_payload (lmic s))) (abs_node s) (seqNoUp s)
            in (conc_node s d, effect_io e))"
  using assms by (rule downlinksRule_dispatch)

theorem downlinksRule_refines_dispatch_witness:
  "frame_wf (lmic (node_boot\<lparr>lmic := lmic_receive example_hdr 255 [0x55, 0x01, 0x00, 0x1E, 0xFF] lmic_init\<rparr>))
   \<and> downlinksRule (node_boot\<lparr>lmic := lmic_receive example_hdr 255 [0x55, 0x01, 0x00, 0x1E, 0xFF] lmic_init\<rparr>)
     = (conc_node (node_boot\<lparr>lmic := lmic_receive example_hdr 255 [0x55, 0x01, 0x00, 0x1E, 0xFF] lmic_init\<rparr>)
          \<lparr>transmitIntervalSeconds = 30, outputEnabled = False\<rparr>, [])"
proof -
  have d: "frame_wf (lmic_receive example_hdr 255 [0x55, 0x01, 0x00, 0x1E, 0xFF] lmic_init)"
    "rx_port (lmic_receive example_hdr 255 [0x55, 0x01, 0x00, 0x1E, 0xFF] lmic_init) = 255"
    "rx_payload (lmic_receive example_hdr 255 [0x55, 0x01, 0x00, 0x1E, 0xFF] lmic_init) = [0x55, 0x01, 0x00, 0x1E, 0xFF]"
    by (simp_all add: lmic_receive_delivers example_hdr_def)
  show ?thesis
    using d downlinksRule_refines_dispatch [where s = "node_boot\<lparr>lmic := lmic_receive example_hdr 255 [0x55, 0x01, 0x00, 0x1E, 0xFF] lmic_init\<rparr>"]
    by (simp add: abs_node_def node_boot_def downlink_data_def)
qed

lemma downlink_data_split [simp]:
  "downlink_data (word_of_nat (unat n div 256)) (word_of_nat (unat n mod 256)) = n"
  by (simp only: word_unat_eq_iff unat_downlink_data be16_split)

lemma split_downlink_data [simp]:
  "word_of_nat (unat (downlink_data hi lo) div 256) = hi"
  "word_of_nat (unat (downlink_data hi lo) mod 256) = lo"
  using unat_u1_less [of lo] by (simp_all only: unat_downlink_data) simp_all

text \<open>
  C15: round trip. Every command with an encoding is decoded back from its
  encoding on port 255; for the set-interval command this recovers the 16-bit
  interval exactly.
\<close>

theorem decode_encode:
  assumes "encode c = Some p"
  shows "decode 255 p = c"
  using assms by (cases c) auto

theorem decode_encode_witness:
  "encode (SetInterval 30) = Some [0x55, 0x01, 0x00, 0x1E, 0xFF]
   \<and> decode 255 [0x55, 0x01, 0x00, 0x1E, 0xFF] = SetInterval 30"
  using decode_encode [of "SetInterval 30" "[0x55, 0x01, 0x00, 0x1E, 0xFF]"] by (simp add: downlink_data_def)

text \<open>
  C16: the encoding is the only frame of a command: a frame that decodes to any
  command but \<open>Reboot\<close> (whose data bytes are ignored) and \<open>Unknown\<close> is the
  encoding of that command.
\<close>

theorem decode_unique:
  assumes "decode port p = c" "c \<noteq> Unknown" "c \<noteq> Reboot"
  shows "encode c = Some p"
  using assms by (cases "(port, p)" rule: decode.cases) (auto split: if_splits)

theorem decode_unique_witness:
  "decode 255 [0x55, 0x01, 0x00, 0x1E, 0xFF] = SetInterval 30 \<and> SetInterval 30 \<noteq> Unknown
   \<and> SetInterval 30 \<noteq> Reboot \<and> encode (SetInterval 30) = Some [0x55, 0x01, 0x00, 0x1E, 0xFF]"
  using decode_unique [of 255 "[0x55, 0x01, 0x00, 0x1E, 0xFF]" "SetInterval 30"] by (simp add: downlink_data_def)

text \<open>
  C10: the code's decoder and the specification's differ exactly on five-byte
  frames that arrive on a port other than 255: the code ignores them, the
  specification's decoder would act on them.
\<close>

theorem decode_vs_decode_spec:
  "decode port p = (if port \<noteq> 255 \<and> length p = 5 then Unknown else decode_spec p)"
  by (cases "(port, p)" rule: decode.cases) auto

text \<open>
  C14: every rejected frame (malformed, unknown sub-command, unrecognised value,
  suppressed reboot) leaves the node unchanged and causes no effect: no state is
  corrupted and no uplink is sent.
\<close>

theorem rejected_frame_no_effect:
  assumes "frame_wf (lmic s)" "rejection (rx_port (lmic s)) (rx_payload (lmic s)) (seqNoUp s) \<noteq> None"
  shows "downlinksRule s = (s, [])"
  using assms(1)
proof (cases rule: downlinksRule_payload_cases)
  case (one v)
  with assms show ?thesis by (simp add: downlink_single_payload split: if_splits)
next
  case (five h c hi lo t)
  with assms show ?thesis by (auto simp add: downlink_framed_payload mayReboot_def split: if_splits)
next
  case other
  then show ?thesis by simp
qed

theorem rejected_frame_no_effect_witness:
  "frame_wf (lmic (node_boot\<lparr>seqNoUp := 2, lmic := lmic_receive example_hdr 255 [0x55, 0x02, 0, 0, 0xFF] lmic_init\<rparr>))
   \<and> rejection (rx_port (lmic (node_boot\<lparr>seqNoUp := 2, lmic := lmic_receive example_hdr 255 [0x55, 0x02, 0, 0, 0xFF] lmic_init\<rparr>)))
       (rx_payload (lmic (node_boot\<lparr>seqNoUp := 2, lmic := lmic_receive example_hdr 255 [0x55, 0x02, 0, 0, 0xFF] lmic_init\<rparr>)))
       (seqNoUp (node_boot\<lparr>seqNoUp := 2, lmic := lmic_receive example_hdr 255 [0x55, 0x02, 0, 0, 0xFF] lmic_init\<rparr>))
     = Some RebootSuppressed
   \<and> snd (downlinksRule (node_boot\<lparr>seqNoUp := 2, lmic := lmic_receive example_hdr 255 [0x55, 0x02, 0, 0, 0xFF] lmic_init\<rparr>)) = []"
proof -
  have d: "frame_wf (lmic_receive example_hdr 255 [0x55, 0x02, 0, 0, 0xFF] lmic_init)"
    "rx_port (lmic_receive example_hdr 255 [0x55, 0x02, 0, 0, 0xFF] lmic_init) = 255"
    "rx_payload (lmic_receive example_hdr 255 [0x55, 0x02, 0, 0, 0xFF] lmic_init) = [0x55, 0x02, 0, 0, 0xFF]"
    by (simp_all add: lmic_receive_delivers example_hdr_def)
  show ?thesis
    using d rejected_frame_no_effect [where s = "node_boot\<lparr>seqNoUp := 2, lmic := lmic_receive example_hdr 255 [0x55, 0x02, 0, 0, 0xFF] lmic_init\<rparr>"]
    by (simp add: mayReboot_def)
qed

end
