(* ===== verification/System_Spec.thy ===== *)
theory System_Spec
  imports Host Downlink_Spec
begin

text \<open>
  The whole node as the specification describes it: the \<open>DeviceState\<close> and
  the session counter \<open>upCount\<close> of sections 3 and 4, changed by completed
  uplinks and by received frames, which are decoded and dispatched; a
  \<open>ScheduleReboot\<close> effect ends in the reboot procedure of section 4.4, after
  which the device state is the default one and the stack has re-seeded the
  counter. The main result is a simulation: every run of the host, on frames
  LMIC can deliver, is a run of this machine under the abstraction
  \<open>abs_host\<close>, with the same effects, in the same order.
\<close>

type_synonym spec_state = "device_state \<times> u4"

definition spec_reset :: "u4 \<Rightarrow> spec_state" where
  "spec_reset reseed = (\<lparr>transmitIntervalSeconds = 15, outputEnabled = False\<rparr>, reseed)"

fun spec_step :: "u4 \<Rightarrow> spec_state \<Rightarrow> event \<Rightarrow> spec_state \<times> effect list" where
  "spec_step reseed (d, up) TxComplete = ((d, up + 1), [])"
| "spec_step reseed (d, up) (RxFrame hdr port payload) =
     (let (d', e) = dispatch (decode port payload) d up
      in (if e = ScheduleReboot then spec_reset reseed else (d', up), [e]))"

fun spec_run :: "u4 \<Rightarrow> spec_state \<Rightarrow> event list \<Rightarrow> spec_state \<times> effect list" where
  "spec_run reseed st [] = (st, [])"
| "spec_run reseed st (e # es) =
     (let (st1, out1) = spec_step reseed st e;
          (st2, out2) = spec_run reseed st1 es
      in (st2, out1 @ out2))"

fun deliverable :: "event \<Rightarrow> bool" where
  "deliverable TxComplete = True"
| "deliverable (RxFrame hdr port payload) = (length hdr < 255 \<and> length payload < 256)"

definition abs_host :: "node \<Rightarrow> spec_state" where
  "abs_host s = (abs_node s, seqNoUp s)"

lemma abs_conc_node [simp]: "abs_node (conc_node s d) = d"
  by (simp add: abs_node_def conc_node_def)

lemma seqNoUp_conc_node [simp]: "seqNoUp (conc_node s d) = seqNoUp s"
  by (simp add: conc_node_def)

lemma abs_node_restart: "abs_node (node_restart r) = \<lparr>transmitIntervalSeconds = 15, outputEnabled = False\<rparr>"
  by (simp add: abs_node_def node_restart_def node_boot_def)

lemma abs_host_restart [simp]: "abs_host (node_restart r) = spec_reset r"
  by (simp add: abs_host_def abs_node_restart spec_reset_def)

lemma restart_in_effect_io: "EspRestart \<in> set (effect_io e) \<longleftrightarrow> e = ScheduleReboot"
  by (cases e) (simp_all add: resetModule_def payloadSend_bytes)

lemma host_step_simulation:
  assumes "deliverable e"
  shows "abs_host (fst (host_step r s e)) = fst (spec_step r (abs_host s) e)
         \<and> snd (host_step r s e) = concat (map effect_io (snd (spec_step r (abs_host s) e)))"
proof (cases e)
  case TxComplete
  then show ?thesis by (simp add: abs_host_def abs_node_def)
next
  case (RxFrame hdr port payload)
  let ?s' = "s\<lparr>lmic := lmic_receive hdr port payload (lmic s)\<rparr>"
  obtain d' ef where de: "dispatch (decode port payload) (abs_node s) (seqNoUp s) = (d', ef)"
    by fastforce
  have l: "length hdr < 255" "length payload < 256"
    using assms RxFrame by simp_all
  then have "frame_wf (lmic ?s')" "rx_port (lmic ?s') = port" "rx_payload (lmic ?s') = payload"
    by (simp_all add: lmic_receive_delivers)
  moreover have "abs_node ?s' = abs_node s"
    by (simp add: abs_node_def)
  ultimately have dr: "downlinksRule ?s' = (conc_node ?s' d', effect_io ef)"
    using downlinksRule_dispatch [of ?s'] de by simp
  show ?thesis
    using RxFrame l de dr by (simp add: host_step_rx abs_host_def restart_in_effect_io abs_node_restart spec_reset_def)
qed

text \<open>
  C6: system refinement. Every run of the host on frames LMIC can deliver is a
  run of the specification's machine: after any sequence of completed uplinks
  and received frames, the abstract device state and counter of the node are
  those of the machine, and the calls the node made (uplinks, delays, restart)
  are the machine's effects, in order.
\<close>

theorem host_refines_spec_machine:
  assumes "\<forall>e \<in> set es. deliverable e"
  shows "abs_host (fst (host_run r s es)) = fst (spec_run r (abs_host s) es)
         \<and> snd (host_run r s es) = concat (map effect_io (snd (spec_run r (abs_host s) es)))"
  using assms
proof (induction es arbitrary: s)
  case Nil
  then show ?case by simp
next
  case (Cons e es)
  obtain st1 out1 where sp: "spec_step r (abs_host s) e = (st1, out1)"
    by fastforce
  have step: "abs_host (fst (host_step r s e)) = st1"
    "snd (host_step r s e) = concat (map effect_io out1)"
    using host_step_simulation [of e r s] Cons.prems sp by simp_all
  have "abs_host (fst (host_run r (fst (host_step r s e)) es)) = fst (spec_run r st1 es)
        \<and> snd (host_run r (fst (host_step r s e)) es) = concat (map effect_io (snd (spec_run r st1 es)))"
    using Cons.IH [of "fst (host_step r s e)"] Cons.prems step(1) by simp
  then show ?case
    using step sp by (simp add: host_run_Cons_split split_def Let_def)
qed

theorem host_refines_spec_machine_witness:
  "deliverable TxComplete \<and> deliverable (RxFrame example_hdr 255 [0x55, 0x01, 0x00, 0x1E, 0xFF])
   \<and> abs_host (fst (host_run 2 node_boot [TxComplete, RxFrame example_hdr 255 [0x55, 0x01, 0x00, 0x1E, 0xFF]]))
     = fst (spec_run 2 (abs_host node_boot) [TxComplete, RxFrame example_hdr 255 [0x55, 0x01, 0x00, 0x1E, 0xFF]])"
proof -
  have d: "deliverable TxComplete" "deliverable (RxFrame example_hdr 255 [0x55, 0x01, 0x00, 0x1E, 0xFF])"
    by (simp_all add: example_hdr_def)
  then have h: "\<forall>e \<in> set [TxComplete, RxFrame example_hdr 255 [0x55, 0x01, 0x00, 0x1E, 0xFF]]. deliverable e"
    by simp
  show ?thesis
    using d host_refines_spec_machine [OF h, where r = 2 and s = node_boot] by blast
qed

end
