(* ===== verification/Logs.thy ===== *)
theory Logs
  imports Downlinks
begin

unbundle bit_operations_syntax

text \<open>
  The serial logs of \<open>src/_logs.h\<close>, with \<open>DEBUG\<close> defined as the build
  selects it. Serial output is a string; \<open>println\<close> ends a line with CR LF.
  The number formatting is the Arduino core's: \<open>Print::print(n, HEX)\<close> writes
  upper-case digits, \<open>String(n, HEX)\<close> lower-case ones, \<open>print(n)\<close> and
  \<open>String(n)\<close> decimal digits, none of them with leading zeros. Modelled:
  \<open>printHex2\<close>, \<open>showNetworkInformations\<close>, \<open>showTxRxInformations\<close>
  (whose result is \<open>None\<close> where its SNR conversion is undefined behaviour)
  and \<open>downlinksLog\<close>. The floating-point formatting of the frequency is not
  modelled: its text is a parameter of \<open>showTxRxInformations\<close>.

  The lemmas show that \<open>printHex2\<close> always writes two upper-case hex digits
  of the low byte, that a key dump can be parsed back into the key, what the
  frame report of \<open>downlinksLog\<close> prints for a delivered frame (its hex dump
  is the payload, its "full frame" dump the start of the MAC frame), that the
  RSSI never overflows, that the SNR conversion is undefined behaviour for every
  SNR of -1 dB or below (derived from C's truncating conversion), and the
  spreading factor table.
\<close>

section \<open>Output and number formatting of the Arduino core\<close>

definition crlf :: string where
  "crlf = [CHR 0x0D, CHR 0x0A]"

definition println :: "string \<Rightarrow> string" where
  "println s = s @ crlf"

definition dec_char :: "nat \<Rightarrow> char" where
  "dec_char d = char_of (48 + d)"

definition hex_char :: "nat \<Rightarrow> char" where
  "hex_char d = (if d < 10 then char_of (48 + d) else char_of (55 + d))"

definition hex_char_lower :: "nat \<Rightarrow> char" where
  "hex_char_lower d = (if d < 10 then char_of (48 + d) else char_of (87 + d))"

fun print_dec :: "nat \<Rightarrow> string" where
  "print_dec n = (if n < 10 then [dec_char n] else print_dec (n div 10) @ [dec_char (n mod 10)])"

fun print_hex :: "nat \<Rightarrow> string" where
  "print_hex n = (if n < 16 then [hex_char n] else print_hex (n div 16) @ [hex_char (n mod 16)])"

fun string_hex :: "nat \<Rightarrow> string" where
  "string_hex n = (if n < 16 then [hex_char_lower n] else string_hex (n div 16) @ [hex_char_lower (n mod 16)])"

declare print_dec.simps [simp del] print_hex.simps [simp del] string_hex.simps [simp del]

text \<open>Reading hex digits back (the inverse used to state round trips).\<close>

definition hex_val :: "char \<Rightarrow> nat" where
  "hex_val c = (let k = of_char c in if k \<le> 57 then k - 48 else k - 55)"

definition hex_value :: "string \<Rightarrow> nat" where
  "hex_value s = foldl (\<lambda>acc c. 16 * acc + hex_val c) 0 s"

fun parse_key :: "string \<Rightarrow> u1 list" where
  "parse_key (a # b # rest) = word_of_nat (hex_value [a, b]) # parse_key (drop 1 rest)"
| "parse_key _ = []"

section \<open>\<open>printHex2\<close> and the key dump\<close>

text \<open>\<open>printHex2(unsigned v)\<close>: keep the low byte, pad to two digits.\<close>

definition printHex2 :: "u4 \<Rightarrow> string" where
  "printHex2 v0 =
     (let v = v0 AND 0xff
      in (if v < 16 then ''0'' else []) @ print_hex (unat v))"

text \<open>
  The loop of \<open>showNetworkInformations\<close> over a key: a dash before every byte
  but the first, then \<open>printHex2\<close> of the byte; \<open>i\<close> is the loop index.
\<close>

fun key_dump :: "nat \<Rightarrow> u1 list \<Rightarrow> string" where
  "key_dump i [] = []"
| "key_dump i (k # ks) = (if i \<noteq> 0 then ''-'' else []) @ printHex2 (ucast k) @ key_dump (Suc i) ks"

definition network_rule :: string where
  "network_rule = replicate 77 (CHR ''_'')"

text \<open>
  \<open>showNetworkInformations()\<close>, given what \<open>LMIC_getSessionKeys\<close> returns:
  the network id, the device address, the network and the application session key.
\<close>

definition showNetworkInformations :: "u4 \<Rightarrow> u4 \<Rightarrow> u1 list \<Rightarrow> u1 list \<Rightarrow> string" where
  "showNetworkInformations net_id dev_addr nwkKey artKey =
     println network_rule @ println [] @
     println ('' [INFO] NetID   (MSB)       : '' @ string_hex (unat net_id)) @
     println ('' [INFO] DevAddr (MSB)       : '' @ string_hex (unat dev_addr)) @
     '' [INFO] AppSKey (MSB)       : '' @ key_dump 0 artKey @
     println [] @
     '' [INFO] NwkSKey (MSB)       : '' @ key_dump 0 nwkKey @
     println [] @ println network_rule @ println []"

section \<open>Values computed by \<open>showTxRxInformations\<close>\<close>

text \<open>\<open>int16_t rssi = (LMIC.rssi - 74)\<close>, the subtraction done in \<open>int\<close>.\<close>

definition txrx_rssi :: "s1 \<Rightarrow> s2" where
  "txrx_rssi r = word_of_int (sint r - 74)"

text \<open>
  C's conversion of a floating value to an integer type truncates towards zero
  and is undefined when the truncated value is not representable; integer
  division towards zero (\<open>trunc_div\<close>) is that truncation for a quotient.
\<close>

definition trunc_div :: "int \<Rightarrow> int \<Rightarrow> int" where
  "trunc_div a b = sgn a * sgn b * (\<bar>a\<bar> div \<bar>b\<bar>)"

text \<open>
  \<open>u1_t snr = LMIC.snr * 0.25\<close>: the product is a \<open>double\<close> and exact, the
  quotient \<open>LMIC.snr / 4\<close>; the conversion to \<open>u1_t\<close> truncates it towards
  zero and is defined only when the result lies in \<open>0 .. 255\<close>. \<open>None\<close> is
  the undefined behaviour.
\<close>

definition txrx_snr :: "s1 \<Rightarrow> u1 option" where
  "txrx_snr s =
     (let t = trunc_div (sint s) 4 in
      if 0 \<le> t \<and> t < 256 then Some (word_of_int t) else None)"

text \<open>The \<open>switch (LMIC.datarate)\<close> of \<open>showTxRxInformations\<close>.\<close>

definition spreading_factor :: "u1 \<Rightarrow> nat option" where
  "spreading_factor dr =
     (if dr = 0 then Some 12 else if dr = 1 then Some 11 else if dr = 2 then Some 10
      else if dr = 3 then Some 9 else if dr = 4 then Some 8 else if dr = 5 then Some 7
      else None)"

definition spreading_factor_line :: "u1 \<Rightarrow> string" where
  "spreading_factor_line dr =
     (case spreading_factor dr of
        Some sf \<Rightarrow> println ('' [INFO] Spreading Factor    : '' @ print_dec sf)
      | None \<Rightarrow> println '' [INFO] Spreading Factor Unknown <<< '')"

text \<open>\<open>String(n)\<close> of a signed value: a minus sign, then the digits.\<close>

definition print_int :: "int \<Rightarrow> string" where
  "print_int i = (if i < 0 then CHR ''-'' # print_dec (nat (- i)) else print_dec (nat i))"

text \<open>
  The counter lines: \<open>String(LMIC.seqnoUp - 1)\<close>, the subtraction done in
  \<open>u4_t\<close>, so it wraps at zero.
\<close>

definition counter_line :: "string \<Rightarrow> u4 \<Rightarrow> string" where
  "counter_line label c = println (label @ print_dec (unat (c - 1)))"

text \<open>
  \<open>showTxRxInformations()\<close>, given the LMIC state, the global
  \<open>modeOperation\<close> and the text \<open>String(freq)\<close> of the frequency in MHz
  (the float formatting of the Arduino core is not modelled). The three values
  are computed before anything is printed, so an undefined SNR conversion makes
  the whole call undefined (\<open>None\<close>).
\<close>

definition showTxRxInformations :: "lmic_state \<Rightarrow> string \<Rightarrow> string \<Rightarrow> string option" where
  "showTxRxInformations l mode freq_text =
     (case txrx_snr (snr l) of
        None \<Rightarrow> None
      | Some snr_val \<Rightarrow> Some (
          println (replicate 52 (CHR ''*'')) @
          println ('' [INFO] NetID               : x'' @ string_hex (unat (netid l))) @
          println ('' [INFO] DevAddr             : '' @ string_hex (unat (devaddr l))) @
          println ('' [INFO] TX on Channel       : '' @ print_dec (unat (txChnl l))) @
          println ('' [INFO] TX Power            : '' @ print_int (sint (txpow l))) @
          println ('' [INFO] RSSI                : '' @ print_int (sint (txrx_rssi (rssi l)))) @
          println ('' [INFO] SNR                 : '' @ print_dec (unat snr_val)) @
          println ('' [INFO] RPS                 : '' @ print_dec (unat (rps l))) @
          println ('' [INFO] Data rate           : '' @ print_dec (unat (datarate l))) @
          spreading_factor_line (datarate l) @
          println ('' [INFO] '' @ mode @ '' on Frequency     : '' @ freq_text @ '' MHz'') @
          println (replicate 52 (CHR ''_'')) @ println [] @
          counter_line '' [INFO] Counter UP          : '' (seqnoUp l) @
          counter_line '' [INFO] Counter DOWN        : '' (seqnoDn l) @
          println (replicate 52 (CHR ''*''))))"

section \<open>\<open>downlinksLog\<close>\<close>

text \<open>The clock-error lines, printed with \<open>String(n)\<close>.\<close>

definition clock_report :: "lmic_state \<Rightarrow> string" where
  "clock_report l =
     println ('' [INFO] RX Delay            : '' @ print_dec (unat (rxDelay l))) @
     println ('' [INFO] Maximum Clock Error : '' @ print_dec MAX_CLOCK_ERROR) @
     println ('' [INFO] New Max. Clock Error: '' @ print_dec (MAX_CLOCK_ERROR * CLOCK_ERROR div 100))"

text \<open>One flag test: a rule of underscores and the message, when the bit is set.\<close>

definition flag_block :: "u1 \<Rightarrow> u1 \<Rightarrow> nat \<Rightarrow> string \<Rightarrow> string" where
  "flag_block flags mask_bit rule msg =
     (if flags AND mask_bit \<noteq> 0 then println (replicate rule (CHR ''_'')) @ println msg else [])"

definition flag_report :: "u1 \<Rightarrow> string" where
  "flag_report f =
     flag_block f TXRX_ACK 36 '' [INFO] Confirmed UP frame was acked'' @
     flag_block f TXRX_NACK 40 '' [INFO] Confirmed UP frame was not acked'' @
     flag_block f TXRX_PORT 55 '' [INFO] A port field is contained in the received frame'' @
     flag_block f TXRX_DNW1 35 '' [INFO] Received in first DOWN slot'' @
     flag_block f TXRX_DNW2 36 '' [INFO] Received in second DOWN slot'' @
     flag_block f TXRX_PING 39 '' [INFO] Received in a scheduled RX slot''"

text \<open>The loop \<open>for (u1_t i = 0; i < LMIC.dataLen; i++) print(LMIC.frame[i]), print(" ")\<close>.\<close>

definition decimal_dump :: "lmic_state \<Rightarrow> string" where
  "decimal_dump l =
     concat (map (\<lambda>i. print_dec (unat (frame_at l i)) @ '' '') [0..<unat (dataLen l)])"

text \<open>The second loop: \<open>frame[dataBeg + i]\<close>, a \<open>0\<close> below \<open>0x10\<close>, the digits in \<open>HEX\<close>.\<close>

definition hex_dump :: "lmic_state \<Rightarrow> string" where
  "hex_dump l =
     concat (map (\<lambda>i. let b = frame_at l (unat (dataBeg l) + i)
                      in (if b < 0x10 then ''0'' else []) @ print_hex (unat b) @ '' '')
                 [0..<unat (dataLen l)])"

definition frame_report :: "lmic_state \<Rightarrow> string" where
  "frame_report l =
     (if dataLen l \<noteq> 0 then
        '' [INFO] Received downlink with '' @ print_dec (unat (dataLen l)) @
        println ('' byte(s) of payload. '' @ [CHR 0x5C] @ ''('' @ [CHR 0x27] @ ''~'' @ [CHR 0x27] @ '')/'') @
        '' [INFO] Received at port          : '' @ print_dec (unat (frame_at l (unat (dataBeg l) - 1))) @
        println ''.'' @ println [] @
        '' [INFO] Full Frame in DECIMAL     : { '' @ decimal_dump l @ println ''}'' @
        '' [INFO] Payload in HEXADECIMAL    : { '' @ hex_dump l @ println ''}'' @ println []
      else [])"

definition downlinksLog :: "lmic_state \<Rightarrow> string" where
  "downlinksLog l = clock_report l @ flag_report (txrxFlags l) @ frame_report l"

section \<open>Properties\<close>

lemma char_of_48: "char_of (48::nat) = CHR ''0''"
  by code_simp

text \<open>Evaluation of the number printers on literal arguments.\<close>

lemmas print_eval = print_dec.simps print_hex.simps string_hex.simps dec_char_def hex_char_def
  hex_char_lower_def char_of_def bit_0

lemma unat_and_ff: "unat ((v :: u4) AND 0xff) = unat v mod 256"
proof -
  have "v AND 0xff = take_bit 8 v"
    by (simp add: take_bit_eq_mask mask_eq_exp_minus_1)
  then show ?thesis by (simp only: unsigned_take_bit_eq) (simp add: take_bit_eq_mod)
qed

lemma unat_ucast_u1_u4 [simp]: "unat (ucast (b :: u1) :: u4) = unat b"
proof -
  have "unat b < 4294967296"
    using unat_u1_less [of b] by linarith
  then show ?thesis by (simp add: unsigned_ucast_eq take_bit_nat_eq_self_iff)
qed

lemma hex_val_hex_char: "d < 16 \<Longrightarrow> hex_val (hex_char d) = d"
  by (simp add: hex_val_def hex_char_def)

lemma print_hex_less16: "n < 16 \<Longrightarrow> print_hex n = [hex_char n]"
  by (simp add: print_hex.simps)

lemma print_hex_less256:
  "16 \<le> n \<Longrightarrow> n < 256 \<Longrightarrow> print_hex n = [hex_char (n div 16), hex_char (n mod 16)]"
  by (simp add: print_hex.simps [of n] print_hex_less16)

text \<open>\<open>printHex2\<close> writes the two hex digits of the low byte.\<close>

lemma printHex2_eq: "printHex2 v = [hex_char (unat v mod 256 div 16), hex_char (unat v mod 16)]"
proof -
  let ?n = "unat v mod 256"
  have lt: "(v AND 0xff < 16) = (?n < 16)"
    by (simp add: word_less_nat_alt unat_and_ff)
  have m: "?n mod 16 = unat v mod 16"
    by (simp add: mod_mod_cancel)
  show ?thesis
  proof (cases "?n < 16")
    case True
    then show ?thesis
      using m by (simp add: printHex2_def Let_def lt unat_and_ff print_hex_less16 hex_char_def char_of_48)
  next
    case False
    then show ?thesis
      using m by (simp add: printHex2_def Let_def lt unat_and_ff print_hex_less256)
  qed
qed

lemma hex_value_printHex2: "hex_value (printHex2 v) = unat v mod 256"
proof -
  have "unat v mod 256 div 16 < 16" "unat v mod 16 < 16"
    by simp_all
  moreover have "16 * (unat v mod 256 div 16) + unat v mod 256 mod 16 = unat v mod 256"
    by (rule mult_div_mod_eq)
  ultimately show ?thesis
    by (simp add: printHex2_eq hex_value_def hex_val_hex_char mod_mod_cancel)
qed

lemma key_dump_Suc: "key_dump (Suc i) ks = concat (map (\<lambda>k. CHR ''-'' # printHex2 (ucast k)) ks)"
  by (induction ks arbitrary: i) simp_all

lemma parse_key_dashes:
  "parse_key (printHex2 (ucast k) @ concat (map (\<lambda>k. CHR ''-'' # printHex2 (ucast k)) ks)) = k # ks"
proof (induction ks arbitrary: k)
  case Nil
  have "parse_key (printHex2 (ucast k)) = [word_of_nat (hex_value (printHex2 (ucast k)))]"
    by (simp add: printHex2_eq)
  then show ?case by (simp add: hex_value_printHex2)
next
  case (Cons k' ks)
  have "parse_key (printHex2 (ucast k) @ concat (map (\<lambda>k. CHR ''-'' # printHex2 (ucast k)) (k' # ks)))
        = word_of_nat (hex_value (printHex2 (ucast k)))
          # parse_key (printHex2 (ucast k') @ concat (map (\<lambda>k. CHR ''-'' # printHex2 (ucast k)) ks))"
    by (simp add: printHex2_eq)
  then show ?case using Cons.IH by (simp add: hex_value_printHex2)
qed

text \<open>The inline formatting of the payload loop is \<open>printHex2\<close> of the byte.\<close>

lemma inline_hex_printHex2:
  "(if b < 0x10 then ''0'' else []) @ print_hex (unat b) @ rest = printHex2 (ucast (b :: u1)) @ rest"
proof -
  have and_id: "(ucast b :: u4) AND 0xff = ucast b"
    by (simp add: word_unat_eq_iff unat_and_ff)
  have "(b < 0x10) = ((ucast b :: u4) < 16)"
    by (simp add: word_less_nat_alt)
  then show ?thesis
    by (simp add: printHex2_def and_id)
qed

text \<open>
  C23: \<open>printHex2\<close> always writes exactly two characters, and reading them as
  hex digits gives back the low byte of its argument.
\<close>

theorem printHex2_two_digits:
  "length (printHex2 v) = 2 \<and> hex_value (printHex2 v) = unat v mod 256"
proof -
  have "length (printHex2 v) = 2"
    by (simp add: printHex2_eq)
  with hex_value_printHex2 [of v] show ?thesis by simp
qed

text \<open>
  C24: round trip. The key dump of \<open>showNetworkInformations\<close> (two hex digits
  per byte, separated by dashes) can be parsed back into the key, whatever its
  length.
\<close>

theorem key_dump_roundtrip: "parse_key (key_dump 0 k) = k"
  by (cases k) (simp_all add: key_dump_Suc parse_key_dashes)

text \<open>The two loops of the frame report, in terms of the frame buffer.\<close>

lemma hex_dump_conv:
  assumes "frame_wf l"
  shows "hex_dump l = concat (map (\<lambda>b. printHex2 (ucast b) @ '' '') (rx_payload l))"
  using assms by (simp add: hex_dump_def rx_payload_conv inline_hex_printHex2 Let_def comp_def)

lemma decimal_dump_conv:
  assumes "frame_wf l"
  shows "decimal_dump l = concat (map (\<lambda>b. print_dec (unat b) @ '' '') (take (unat (dataLen l)) (frame l)))"
proof -
  have "take (unat (dataLen l)) (frame l) = map (frame_at l) [0..<unat (dataLen l)]"
    using assms by (intro nth_equalityI) (simp_all add: frame_wf_def frame_at_def)
  then show ?thesis
    by (simp add: decimal_dump_def comp_def)
qed

text \<open>
  C25: the frame report of \<open>downlinksLog\<close> for a frame LMIC delivered: it
  names the payload length and the port, prints the payload in hex as
  \<open>printHex2\<close> would; but its "Full Frame in DECIMAL" line prints the first
  \<open>dataLen\<close> bytes of the MAC frame, header first, and not the payload.
\<close>

theorem frame_report_delivered:
  assumes "length hdr < 255" "length payload < 256" "payload \<noteq> []"
  shows "frame_report (lmic_receive hdr port payload l) =
    '' [INFO] Received downlink with '' @ print_dec (length payload) @
    println ('' byte(s) of payload. '' @ [CHR 0x5C] @ ''('' @ [CHR 0x27] @ ''~'' @ [CHR 0x27] @ '')/'') @
    '' [INFO] Received at port          : '' @ print_dec (unat port) @ println ''.'' @ println [] @
    '' [INFO] Full Frame in DECIMAL     : { '' @
      concat (map (\<lambda>b. print_dec (unat b) @ '' '') (take (length payload) (hdr @ port # payload))) @
      println ''}'' @
    '' [INFO] Payload in HEXADECIMAL    : { '' @
      concat (map (\<lambda>b. printHex2 (ucast b) @ '' '') payload) @ println ''}'' @ println []"
proof -
  let ?l = "lmic_receive hdr port payload l"
  have d: "frame_wf ?l" "rx_port ?l = port" "rx_payload ?l = payload"
    using assms(1,2) by (simp_all add: lmic_receive_delivers)
  then have n: "unat (dataLen ?l) = length payload"
    using length_rx_payload [of ?l] by simp
  then have "dataLen ?l \<noteq> 0"
    using assms(3) by auto
  with d n show ?thesis
    by (simp add: frame_report_def hex_dump_conv decimal_dump_conv rx_port_def lmic_receive_def)
qed

theorem frame_report_delivered_witness:
  "length example_hdr < 255 \<and> length [0x55, 0x01, 0x00, 0x1E, 0xFF :: u1] < 256
   \<and> [0x55, 0x01, 0x00, 0x1E, 0xFF :: u1] \<noteq> []
   \<and> frame_report (lmic_receive example_hdr 255 [0x55, 0x01, 0x00, 0x1E, 0xFF] lmic_init) =
    '' [INFO] Received downlink with '' @ print_dec 5 @
    println ('' byte(s) of payload. '' @ [CHR 0x5C] @ ''('' @ [CHR 0x27] @ ''~'' @ [CHR 0x27] @ '')/'') @
    '' [INFO] Received at port          : '' @ print_dec 255 @ println ''.'' @ println [] @
    '' [INFO] Full Frame in DECIMAL     : { '' @
      concat (map (\<lambda>b. print_dec (unat b) @ '' '') [0x60, 0x1C, 0xE7, 0xC4, 0x23 :: u1]) @
      println ''}'' @
    '' [INFO] Payload in HEXADECIMAL    : { '' @
      concat (map (\<lambda>b. printHex2 (ucast b) @ '' '') [0x55, 0x01, 0x00, 0x1E, 0xFF :: u1]) @ println ''}'' @ println []"
proof -
  have h: "length example_hdr < 255" "length [0x55, 0x01, 0x00, 0x1E, 0xFF :: u1] < 256"
    "[0x55, 0x01, 0x00, 0x1E, 0xFF :: u1] \<noteq> []"
    by (simp_all add: example_hdr_def)
  have l: "length [0x55, 0x01, 0x00, 0x1E, 0xFF :: u1] = 5"
    by simp
  have t: "take 5 (example_hdr @ 255 # [0x55, 0x01, 0x00, 0x1E, 0xFF]) = [0x60, 0x1C, 0xE7, 0xC4, 0x23 :: u1]"
    by (simp add: example_hdr_def)
  have p: "unat (255 :: u1) = 255"
    by simp
  show ?thesis
    using h frame_report_delivered [OF h, where port = 255 and l = lmic_init] unfolding l t p by blast
qed

text \<open>
  C28: the RSSI line never overflows: \<open>LMIC.rssi - 74\<close> fits its
  \<open>int16_t\<close> and lies between -202 and 53.
\<close>

theorem rssi_exact:
  "sint (txrx_rssi r) = sint r - 74 \<and> -202 \<le> sint (txrx_rssi r) \<and> sint (txrx_rssi r) \<le> 53"
proof -
  have b: "-128 \<le> sint r" "sint r < 128"
    using sint_ge [of r] sint_lt [of r] by simp_all
  then have "sint (word_of_int (sint r - 74) :: s2) = sint r - 74"
    by (simp only: sint_sbintrunc') (simp add: signed_take_bit_int_eq_self)
  with b show ?thesis
    by (simp add: txrx_rssi_def)
qed

text \<open>
  C29: the conversion of the SNR to \<open>u1_t\<close> is undefined behaviour exactly
  when \<open>LMIC.snr\<close> is -4 or less, i.e. for every SNR of -1 dB and below, which
  LoRa receptions commonly have.
\<close>

theorem snr_undefined_iff: "txrx_snr s = None \<longleftrightarrow> sint s \<le> -4"
proof -
  have b: "-128 \<le> sint s" "sint s < 128"
    using sint_ge [of s] sint_lt [of s] by simp_all
  have "0 \<le> trunc_div (sint s) 4 \<longleftrightarrow> -4 < sint s"
    unfolding trunc_div_def sgn_if abs_if by presburger
  moreover have "trunc_div (sint s) 4 < 256"
    using b unfolding trunc_div_def sgn_if abs_if by presburger
  ultimately show ?thesis
    by (auto simp: txrx_snr_def Let_def)
qed

text \<open>
  C30: the spreading-factor table: data rates 0 to 5 are SF12 down to SF7, any
  other data rate is reported as unknown.
\<close>

theorem sf_table:
  "spreading_factor dr = (if unat dr \<le> 5 then Some (12 - unat dr) else None)"
proof -
  have e: "dr = k \<longleftrightarrow> unat dr = unat k" for k :: u1
    by (simp add: word_unat_eq_iff)
  show ?thesis
    unfolding spreading_factor_def e by auto
qed

end
