(* ===== verification/Log_Loops.thy ===== *)
theory Log_Loops
  imports Logs
begin

text \<open>
  The three \<open>for\<close> loops of \<open>src/_logs.h\<close> as the loops they are: a counter of
  the C type of the loop variable (\<open>u1_t\<close> for the two frame loops of
  \<open>downlinksLog\<close>, \<open>size_t\<close>, 32 bits on the ESP32, for the key loops of
  \<open>showNetworkInformations\<close>), the test \<open>i < n\<close> against a bound of the same
  type, the body's output, then \<open>i++\<close> in the counter's width. A counter that
  wraps before reaching its bound would loop forever, so the loop is a
  \<open>partial_function (option)\<close>, with \<open>None\<close> for a loop that does not end.

  The lemmas show that the loops end, because the bound has the counter's
  type, and print the output of the list-based definitions of \<open>Logs\<close>: the
  decimal and hex dumps of the frame report and the key dump.
\<close>

section \<open>The loop\<close>

text \<open>\<open>for (T i = i0; i < n; i++) print(body(i))\<close>, for a counter of type \<open>'a word\<close>.\<close>

partial_function (option) for_loop :: "'a::len word \<Rightarrow> ('a word \<Rightarrow> string) \<Rightarrow> 'a word \<Rightarrow> string option" where
  "for_loop n body i =
     (if i < n then Option.bind (for_loop n body (i + 1)) (\<lambda>rest. Some (body i @ rest)) else Some [])"

text \<open>The two loops of the frame report, with their \<open>u1_t\<close> counters.\<close>

definition decimal_loop :: "lmic_state \<Rightarrow> string option" where
  "decimal_loop l = for_loop (dataLen l) (\<lambda>i. print_dec (unat (frame_at l (unat i))) @ '' '') 0"

definition hex_loop :: "lmic_state \<Rightarrow> string option" where
  "hex_loop l =
     for_loop (dataLen l)
       (\<lambda>i. let b = frame_at l (unat (dataBeg l) + unat i)
            in (if b < 0x10 then ''0'' else []) @ print_hex (unat b) @ '' '') 0"

text \<open>
  The key loop, \<open>for (size_t i = 0; i < sizeof(key); ++i)\<close>: a dash before
  every byte but the first, then \<open>printHex2(key[i])\<close>.
\<close>

definition key_loop :: "u1 list \<Rightarrow> string option" where
  "key_loop key =
     for_loop (word_of_nat (length key) :: u4)
       (\<lambda>i. (if i \<noteq> 0 then ''-'' else []) @ printHex2 (ucast (key ! unat i))) 0"

section \<open>Properties\<close>

text \<open>Every loop with a bound of the counter's type runs from \<open>i\<close> up to the bound.\<close>

lemma for_loop_eq:
  "for_loop n body i = Some (concat (map (\<lambda>j. body (word_of_nat j)) [unat i..<unat n]))"
proof (induction "unat n - unat i" arbitrary: i)
  case 0
  then have "\<not> i < n" by (simp add: word_less_nat_alt)
  with 0 show ?case by (subst for_loop.simps) (simp add: word_less_nat_alt)
next
  case (Suc k)
  then have lt: "i < n" by (simp add: word_less_nat_alt)
  then have u: "unat (i + 1) = Suc (unat i)" by (rule unat_succ_less)
  with Suc.hyps have "k = unat n - unat (i + 1)" by simp
  then have "for_loop n body (i + 1) = Some (concat (map (\<lambda>j. body (word_of_nat j)) [unat (i + 1)..<unat n]))"
    by (rule Suc.hyps)
  moreover have "[unat i..<unat n] = unat i # [Suc (unat i)..<unat n]"
    using lt by (simp add: upt_conv_Cons word_less_nat_alt)
  ultimately show ?case
    using lt u by (subst for_loop.simps) simp
qed

lemma for_loop_from_0:
  "for_loop n body 0 = Some (concat (map (\<lambda>j. body (word_of_nat j)) [0..<unat n]))"
  by (simp add: for_loop_eq)

text \<open>The key dump of \<open>Logs\<close>, indexed like the loop.\<close>

lemma key_dump_nth:
  "key_dump i ks = concat (map (\<lambda>j. (if i + j \<noteq> 0 then ''-'' else []) @ printHex2 (ucast (ks ! j))) [0..<length ks])"
proof (induction ks arbitrary: i)
  case Nil
  then show ?case by simp
next
  case (Cons k ks)
  have "[0..<length (k # ks)] = 0 # map Suc [0..<length ks]"
    by (simp add: map_Suc_upt upt_conv_Cons del: upt_Suc)
  then show ?case
    by (simp add: Cons.IH comp_def)
qed


text \<open>
  C26: the loops of the frame report print exactly the dumps of \<open>Logs\<close>,
  which are defined by lists over the indices \<open>0 ..< dataLen\<close>.
\<close>

theorem frame_loops_compute_dumps:
  "decimal_loop l = Some (decimal_dump l) \<and> hex_loop l = Some (hex_dump l)"
proof -
  have d: "map (\<lambda>j. print_dec (unat (frame_at l (unat (word_of_nat j :: u1)))) @ '' '') [0..<unat (dataLen l)]
         = map (\<lambda>k. print_dec (unat (frame_at l k)) @ '' '') [0..<unat (dataLen l)]"
    by (rule map_unat_of_nat_upt)
  have h: "map (\<lambda>j. let b = frame_at l (unat (dataBeg l) + unat (word_of_nat j :: u1))
                    in (if b < 0x10 then ''0'' else []) @ print_hex (unat b) @ '' '') [0..<unat (dataLen l)]
         = map (\<lambda>k. let b = frame_at l (unat (dataBeg l) + k)
                    in (if b < 0x10 then ''0'' else []) @ print_hex (unat b) @ '' '') [0..<unat (dataLen l)]"
    by (rule map_unat_of_nat_upt)
  show ?thesis
    by (simp only: decimal_loop_def hex_loop_def for_loop_from_0 decimal_dump_def hex_dump_def d h)
qed
text \<open>
  C27: the key loop of \<open>showNetworkInformations\<close> ends and prints the key
  dump of \<open>Logs\<close>, for every key whose size fits its \<open>size_t\<close> counter.
\<close>

theorem key_loop_dump:
  assumes "length key < 2 ^ 32"
  shows "key_loop key = Some (key_dump 0 key)"
proof -
  have n: "unat (word_of_nat (length key) :: u4) = length key"
    using assms by (simp only: unat_of_nat) simp
  have "map (\<lambda>j. (if word_of_nat j \<noteq> (0 :: u4) then ''-'' else []) @ printHex2 (ucast (key ! unat (word_of_nat j :: u4))))
          [0..<length key]
        = map (\<lambda>j. (if 0 + j \<noteq> 0 then ''-'' else []) @ printHex2 (ucast (key ! j))) [0..<length key]"
  proof (intro map_cong refl)
    fix j
    assume "j \<in> set [0..<length key]"
    then have j: "j < unat (word_of_nat (length key) :: u4)"
      using n by simp
    show "(if word_of_nat j \<noteq> (0 :: u4) then ''-'' else []) @ printHex2 (ucast (key ! unat (word_of_nat j :: u4)))
        = (if 0 + j \<noteq> 0 then ''-'' else []) @ printHex2 (ucast (key ! j))"
      using unat_of_nat_below [OF j] word_of_nat_below_eq_0 [OF j] by simp
  qed
  then show ?thesis
    by (simp only: key_loop_def for_loop_from_0 n key_dump_nth)
qed

theorem key_loop_dump_witness:
  "length (replicate 16 (0xAB :: u1)) < 2 ^ 32 \<and> key_loop (replicate 16 0xAB) = Some (key_dump 0 (replicate 16 0xAB))"
  using key_loop_dump [of "replicate 16 0xAB"] by simp
end
