(* ===== verification/Credentials.thy ===== *)
theory Credentials
  imports Configurations
begin

text \<open>
  The key material of \<open>src/_credentials.h\<close>: for each network provider the
  ABP session keys and device address, and the OTAA application EUI, device EUI
  and application key, as the byte arrays the header declares (the arrays hold
  the bytes in the order written, the header's comments give both byte orders).
  The LMIC callbacks \<open>os_getArtEui\<close>, \<open>os_getDevEui\<close> and
  \<open>os_getDevKey\<close> copy the selected array into LMIC's buffer with
  \<open>memcpy_P\<close> in an OTAA build and are empty in an ABP build. The lemma shows
  that each callback fills exactly its buffer with the table of the selected
  provider, and leaves the buffer alone in an ABP build.
\<close>

section \<open>Key tables\<close>

fun APPSKEY :: "network \<Rightarrow> u1 list" where
  "APPSKEY USE_CHIRPSTACK_AU915 =
     [0x59, 0xBF, 0xC6, 0x89, 0x82, 0x4B, 0xDA, 0x7D, 0x0E, 0xF4, 0xA5, 0x1E, 0x56, 0xCF, 0xC2, 0xAF]"
| "APPSKEY USE_CHIRPSTACK_AU915LA =
     [0x59, 0xBF, 0xC6, 0x89, 0x82, 0x4B, 0xDA, 0x7D, 0x0E, 0xF4, 0xA5, 0x1E, 0x56, 0xCF, 0xC2, 0xAF]"
| "APPSKEY USE_EVERYNET_AU915LA =
     [0x00, 0x00, 0x00, 0x00, 0x00, 0x00, 0x00, 0x00, 0x00, 0x00, 0x00, 0x00, 0x00, 0x00, 0x00, 0x00]"
| "APPSKEY USE_THETHINGSNETWORK_AU915 =
     [0xA5, 0x9B, 0x56, 0x5E, 0xD0, 0xC7, 0x08, 0xCC, 0x2B, 0xF2, 0x7D, 0x8B, 0x71, 0x40, 0xED, 0x90]"

fun NWKSKEY :: "network \<Rightarrow> u1 list" where
  "NWKSKEY USE_CHIRPSTACK_AU915 =
     [0xA9, 0x55, 0x39, 0x0E, 0x48, 0x6A, 0x6F, 0xE4, 0xA2, 0x57, 0x5A, 0xE8, 0x7C, 0xCD, 0xF2, 0x99]"
| "NWKSKEY USE_CHIRPSTACK_AU915LA =
     [0xA9, 0x55, 0x39, 0x0E, 0x48, 0x6A, 0x6F, 0xE4, 0xA2, 0x57, 0x5A, 0xE8, 0x7C, 0xCD, 0xF2, 0x99]"
| "NWKSKEY USE_EVERYNET_AU915LA =
     [0x00, 0x00, 0x00, 0x00, 0x00, 0x00, 0x00, 0x00, 0x00, 0x00, 0x00, 0x00, 0x00, 0x00, 0x00, 0x00]"
| "NWKSKEY USE_THETHINGSNETWORK_AU915 =
     [0xF3, 0x58, 0xB7, 0x4F, 0x36, 0x03, 0x03, 0x6B, 0x46, 0x3E, 0xC4, 0x86, 0xDB, 0xB2, 0x29, 0x55]"

fun DEVADDR :: "network \<Rightarrow> u4" where
  "DEVADDR USE_CHIRPSTACK_AU915 = 0x23c4e71c"
| "DEVADDR USE_CHIRPSTACK_AU915LA = 0x23c4e71c"
| "DEVADDR USE_EVERYNET_AU915LA = 0x00000000"
| "DEVADDR USE_THETHINGSNETWORK_AU915 = 0x26031738"

fun APPEUI :: "network \<Rightarrow> u1 list" where
  "APPEUI USE_CHIRPSTACK_AU915 =
     [0x00, 0x00, 0x00, 0x00, 0x00, 0x00, 0x00, 0x00]"
| "APPEUI USE_CHIRPSTACK_AU915LA =
     [0x00, 0x00, 0x00, 0x00, 0x00, 0x00, 0x00, 0x00]"
| "APPEUI USE_EVERYNET_AU915LA =
     [0x00, 0x00, 0x00, 0x00, 0x00, 0x00, 0x00, 0x00]"
| "APPEUI USE_THETHINGSNETWORK_AU915 =
     [0x01, 0x17, 0x03, 0xD0, 0x7E, 0xD5, 0xB3, 0x70]"

fun DEVEUI :: "network \<Rightarrow> u1 list" where
  "DEVEUI USE_CHIRPSTACK_AU915 =
     [0xde, 0x63, 0x1e, 0xa3, 0xe5, 0xf5, 0x8d, 0xf3]"
| "DEVEUI USE_CHIRPSTACK_AU915LA =
     [0xde, 0x63, 0x1e, 0xa3, 0xe5, 0xf5, 0x8d, 0xf3]"
| "DEVEUI USE_EVERYNET_AU915LA =
     [0x00, 0x00, 0x00, 0x00, 0x00, 0x00, 0x00, 0x00]"
| "DEVEUI USE_THETHINGSNETWORK_AU915 =
     [0xF0, 0xE4, 0xBD, 0x0F, 0xEF, 0x5B, 0x27, 0x00]"

fun APPKEY :: "network \<Rightarrow> u1 list" where
  "APPKEY USE_CHIRPSTACK_AU915 =
     [0x6f, 0xc5, 0x7c, 0x4c, 0xda, 0x46, 0xdd, 0xc5, 0x02, 0xbc, 0xb7, 0x85, 0x5e, 0x4e, 0x94, 0xae]"
| "APPKEY USE_CHIRPSTACK_AU915LA =
     [0x6f, 0xc5, 0x7c, 0x4c, 0xda, 0x46, 0xdd, 0xc5, 0x02, 0xbc, 0xb7, 0x85, 0x5e, 0x4e, 0x94, 0xae]"
| "APPKEY USE_EVERYNET_AU915LA =
     [0x00, 0x00, 0x00, 0x00, 0x00, 0x00, 0x00, 0x00, 0x00, 0x00, 0x00, 0x00, 0x00, 0x00, 0x00, 0x00]"
| "APPKEY USE_THETHINGSNETWORK_AU915 =
     [0x70, 0xDC, 0xA9, 0x80, 0x78, 0x37, 0x4C, 0x51, 0x63, 0x3E, 0x4D, 0x73, 0x16, 0xA6, 0xB3, 0xB1]"

section \<open>Callbacks\<close>

text \<open>\<open>memcpy_P(dst, src, n)\<close>: the first \<open>n\<close> bytes of \<open>dst\<close> become those of \<open>src\<close>.\<close>

definition memcpy_P :: "u1 list \<Rightarrow> u1 list \<Rightarrow> nat \<Rightarrow> u1 list" where
  "memcpy_P dst src n = take n src @ drop n dst"

text \<open>
  In an ABP build the three callbacks are empty functions
  (\<open>void os_getArtEui(u1_t *buf) {}\<close> and the like): the buffer is left as it
  is. Each callback below selects its ABP or its OTAA body by the build's
  activation mode, as the \<open>#ifdef USE_ABP\<close> / \<open>#ifdef USE_OTAA\<close> blocks do.
\<close>

definition abp_callback :: "u1 list \<Rightarrow> u1 list" where
  "abp_callback buf = buf"

definition os_getArtEui :: "build \<Rightarrow> u1 list \<Rightarrow> u1 list" where
  "os_getArtEui b buf =
     (case activation_mode b of USE_OTAA \<Rightarrow> memcpy_P buf (APPEUI (network_provider b)) 8 | USE_ABP \<Rightarrow> abp_callback buf)"

definition os_getDevEui :: "build \<Rightarrow> u1 list \<Rightarrow> u1 list" where
  "os_getDevEui b buf =
     (case activation_mode b of USE_OTAA \<Rightarrow> memcpy_P buf (DEVEUI (network_provider b)) 8 | USE_ABP \<Rightarrow> abp_callback buf)"

definition os_getDevKey :: "build \<Rightarrow> u1 list \<Rightarrow> u1 list" where
  "os_getDevKey b buf =
     (case activation_mode b of USE_OTAA \<Rightarrow> memcpy_P buf (APPKEY (network_provider b)) 16 | USE_ABP \<Rightarrow> abp_callback buf)"

section \<open>Properties\<close>

lemma memcpy_P_whole: "length src = n \<Longrightarrow> length dst = n \<Longrightarrow> memcpy_P dst src n = src"
  by (simp add: memcpy_P_def)

text \<open>
  C22: in an OTAA build each LMIC callback fills its whole buffer (8, 8 and 16
  bytes) with the selected provider's application EUI, device EUI and
  application key; in an ABP build the callbacks leave the buffers unchanged.
\<close>

theorem os_callbacks_fill:
  assumes "length eui1 = 8" "length eui2 = 8" "length key = 16"
  shows "os_getArtEui b eui1 = (if activation_mode b = USE_OTAA then APPEUI (network_provider b) else eui1)
       \<and> os_getDevEui b eui2 = (if activation_mode b = USE_OTAA then DEVEUI (network_provider b) else eui2)
       \<and> os_getDevKey b key = (if activation_mode b = USE_OTAA then APPKEY (network_provider b) else key)"
  using assms
  by (cases "activation_mode b"; cases "network_provider b")
    (simp_all add: os_getArtEui_def os_getDevEui_def os_getDevKey_def abp_callback_def memcpy_P_whole)

theorem os_callbacks_fill_witness:
  "length (replicate 8 (0 :: u1)) = 8 \<and> length (replicate 8 (0 :: u1)) = 8 \<and> length (replicate 16 (0 :: u1)) = 16
   \<and> os_getDevEui build_config (replicate 8 0) = [0xde, 0x63, 0x1e, 0xa3, 0xe5, 0xf5, 0x8d, 0xf3]"
  using os_callbacks_fill [of "replicate 8 0" "replicate 8 0" "replicate 16 0" build_config]
  by (simp add: build_config_def)

end
