(* ===== verification/Frame_Reads.thy ===== *)
theory Frame_Reads
  imports Downlinks
begin

text \<open>
  The array reads of \<open>downlinksRule\<close> (\<open>src/_downlinks.h\<close>), as C performs
  them. Every access \<open>LMIC.frame[e]\<close> computes its index \<open>e\<close> in \<open>int\<close>
  (\<open>dataBeg\<close> is promoted), so \<open>dataBeg - 1\<close> is -1 when \<open>dataBeg\<close> is 0.
  The condition of the framed block is written with the bitwise \<open>&\<close>, which
  evaluates both operands, so the port byte \<open>frame[dataBeg - 1]\<close> is read on
  every call, whatever \<open>dataLen\<close> is; when the framed test fails, the
  \<open>else\<close> branch reads it once more for its debug line (\<open>DEBUG\<close> is
  defined in the build). The model lists the indices read, in
  program order, and \<open>frame_index\<close> reads the buffer with an explicit
  out-of-range result (\<open>None\<close>) instead of HOL's unspecified \<open>nth\<close>.

  The lemmas show that on a frame LMIC delivered every read is inside the
  buffer, and that with \<open>dataBeg = 0\<close> (nothing received) the handler reads
  index -1, outside the array, whatever the length.
\<close>

definition frame_index :: "lmic_state \<Rightarrow> int \<Rightarrow> u1 option" where
  "frame_index l i = (if 0 \<le> i \<and> i < int (length (frame l)) then Some (frame l ! nat i) else None)"

definition downlinksRule_reads :: "lmic_state \<Rightarrow> int list" where
  "downlinksRule_reads l =
     (let b = int (unat (dataBeg l)) in
      (if dataLen l = 1 then [b + 0] else []) @
      [b - 1] @
      (if dataLen l = 5 \<and> frame_index l (b - 1) = Some 255 then [b + 0, b + 1, b + 2, b + 3, b + 4] else [b - 1]))"

lemma frame_index_in_bounds:
  "frame_index l i \<noteq> None \<longleftrightarrow> 0 \<le> i \<and> i < int (length (frame l))"
  by (simp add: frame_index_def)

text \<open>
  C12: on a well-formed frame (port byte and payload inside the buffer, as LMIC
  delivers every frame) every index \<open>downlinksRule\<close> reads lies inside the
  frame buffer.
\<close>

theorem downlinksRule_reads_in_bounds:
  assumes "frame_wf l" "i \<in> set (downlinksRule_reads l)"
  shows "frame_index l i \<noteq> None"
proof -
  have b: "1 \<le> int (unat (dataBeg l))" "int (unat (dataBeg l)) + int (unat (dataLen l)) \<le> int (length (frame l))"
    using assms(1) by (simp_all add: frame_wf_def del: of_nat_unat)
  have one: "dataLen l = 1 \<Longrightarrow> int (unat (dataLen l)) = 1" and five: "dataLen l = 5 \<Longrightarrow> int (unat (dataLen l)) = 5"
    by simp_all
  show ?thesis
    using assms(2) b one five unfolding frame_index_in_bounds
    by (auto simp: downlinksRule_reads_def Let_def simp del: of_nat_unat split: if_splits)
qed

theorem downlinksRule_reads_in_bounds_witness:
  "frame_wf (lmic_receive example_hdr 255 [0x55, 0x02, 0, 0, 0xFF] lmic_init)
   \<and> 13 \<in> set (downlinksRule_reads (lmic_receive example_hdr 255 [0x55, 0x02, 0, 0, 0xFF] lmic_init))
   \<and> frame_index (lmic_receive example_hdr 255 [0x55, 0x02, 0, 0, 0xFF] lmic_init) 13 \<noteq> None"
proof -
  have w: "frame_wf (lmic_receive example_hdr 255 [0x55, 0x02, 0, 0, 0xFF] lmic_init)"
    by (simp add: lmic_receive_delivers example_hdr_def)
  have r: "13 \<in> set (downlinksRule_reads (lmic_receive example_hdr 255 [0x55, 0x02, 0, 0, 0xFF] lmic_init))"
    by (simp add: downlinksRule_reads_def frame_index_def lmic_receive_def example_hdr_def)
  show ?thesis
    using w r downlinksRule_reads_in_bounds [OF w r] by blast
qed

text \<open>
  C13: the out-of-bounds read. When \<open>dataBeg\<close> is 0, as before any frame has
  been received, \<open>downlinksRule\<close> reads \<open>frame[-1]\<close>, outside the array, for
  every value of \<open>dataLen\<close>: the bitwise \<open>&\<close> does not stop after a false
  length test.
\<close>

theorem port_read_out_of_bounds:
  assumes "dataBeg l = 0"
  shows "-1 \<in> set (downlinksRule_reads l) \<and> frame_index l (-1) = None"
  using assms by (simp add: downlinksRule_reads_def frame_index_def)

theorem port_read_out_of_bounds_witness:
  "dataBeg lmic_init = 0 \<and> -1 \<in> set (downlinksRule_reads lmic_init) \<and> frame_index lmic_init (-1) = None"
  using port_read_out_of_bounds [of lmic_init] by (simp add: lmic_init_def)

end
