(* ===== verification/Spec2Isabelle.thy ===== *)
theory Spec2Isabelle
  imports System_Spec Log_Loops Credentials Frame_Reads
begin

text \<open>
  \<^bold>\<open>A verification library for the LoRaWAN node skeleton.\<close>

  The program is an Arduino sketch for an ESP32 LoRa board running the LMIC
  LoRaWAN stack. Its sources under \<open>src/\<close> are headers included by the sketch:
  \<open>_configurations.h\<close> (build switches, ports, radio settings and the sketch's
  globals), \<open>_credentials.h\<close> (the key tables of four network providers and the
  LMIC key callbacks), \<open>_uplinks.h\<close> (the payloads sent to the network),
  \<open>_downlinks.h\<close> (the handler \<open>downlinksRule\<close> that acts on a received frame)
  and \<open>_logs.h\<close> (serial reports of the radio state and of a received frame).
  LMIC calls into the sketch on its events; on a received frame the sketch runs
  \<open>downlinksRule\<close>, which may switch the LED, queue the relay uplink, change the
  transmit interval, or restart the module.

  \<^bold>\<open>Theories.\<close>
  \<^item> \<open>LoRa_Prelude\<close>: the C integer types as words (\<open>u1\<close>, \<open>s1\<close> = \<open>8 word\<close>,
    \<open>u2\<close>, \<open>s2\<close> = \<open>16 word\<close>, \<open>u4\<close> = \<open>32 word\<close>), ASCII strings as bytes,
    big-endian 16-bit pairs, and the collection \<open>lora_simps\<close>.
  \<^item> \<open>Platform\<close>: the parts of LMIC and Arduino the sources touch, as an
    interface: the record \<open>lmic_state\<close> (frame buffer, \<open>dataBeg\<close>,
    \<open>dataLen\<close>, \<open>txrxFlags\<close>, counters, radio fields), the \<open>io\<close> effects
    (\<open>LMIC_setTxData2\<close>, \<open>delay\<close>, \<open>delayMicroseconds\<close>, \<open>esp_restart\<close>), and
    \<open>lmic_receive\<close>, how LMIC stores a delivered frame.
  \<^item> \<open>Configurations\<close>: \<open>_configurations.h\<close>: the build switches
    (\<open>activation\<close>, \<open>network\<close>, \<open>build_config\<close>), the constants, the globals
    as the record \<open>globals\<close> with their initialisers, and the node state
    \<open>node\<close> = globals + LMIC state + pins, with \<open>node_boot\<close>.
  \<^item> \<open>Uplinks\<close>: \<open>_uplinks.h\<close>: \<open>payloadSend\<close>, \<open>payloadMyNameVerticalBytes\<close>
    and the relay payload; each returns the \<open>io\<close> it causes.
  \<^item> \<open>Downlinks\<close>: \<open>_downlinks.h\<close>: \<open>downlinksRule\<close> as the composition of its
    one-byte block \<open>downlink_single\<close> and its framed block
    \<open>downlink_framed\<close>, each a function from the node to the node and the
    effects, with \<open>resetModule\<close> and \<open>downlinksControlTime\<close>. Lemmas: the reboot
    guard, the interval command, the one-byte commands, the port check, what the
    handler may change and which effect lists it can produce.
  \<^item> \<open>Downlink_Spec\<close>: the specification's decoder and dispatcher
    (\<open>decode\<close>, \<open>dispatch\<close>, \<open>mayReboot\<close>, \<open>encode\<close>) and the refinement:
    \<open>downlinksRule\<close> is \<open>dispatch\<close> after \<open>decode\<close> through the abstraction
    \<open>abs_node\<close>; with the round trip of the wire format and where the code's
    decoder differs from the specification's (the port).
  \<^item> \<open>Host\<close>: the sketch's event loop (not under \<open>src/\<close>, modelled from the
    specification): \<open>host_step\<close> on a completed uplink or a received frame,
    runs \<open>host_run\<close>, reachability \<open>host_reach\<close>. Lemmas: no reboot loop,
    restarts bounded by uplinks, the reboot command takes effect after at most
    three uplinks, the interval within 16 bits in every reachable state.
  \<^item> \<open>Logs\<close>: \<open>_logs.h\<close>: \<open>printHex2\<close>,
    \<open>showNetworkInformations\<close> with its key dumps, \<open>showTxRxInformations\<close>
    and \<open>downlinksLog\<close> (clock, flags, frame report), as functions to the
    printed text. Lemmas: hex round trips, what the frame report prints for a
    delivered frame, the RSSI range, when the SNR conversion (truncation towards
    zero, \<open>trunc_div\<close>) is undefined, the spreading-factor table.
  \<^item> \<open>System_Spec\<close>: the specification's whole-node machine: device state
    and uplink counter, changed by completed uplinks and by decoded and
    dispatched frames, with the reboot procedure resetting to the defaults
    (\<open>spec_step\<close>, \<open>spec_run\<close>). Lemma: every host run on deliverable frames
    simulates it under \<open>abs_host\<close>, state and effects alike.
  \<^item> \<open>Frame_Reads\<close>: the array reads of \<open>downlinksRule\<close> in program order
    with \<open>int\<close> indices (\<open>downlinksRule_reads\<close>) and a read with an explicit
    out-of-range result (\<open>frame_index\<close>). Lemmas: every read is in bounds on a
    delivered frame; with \<open>dataBeg = 0\<close> the non-short-circuit \<open>&\<close> reads
    \<open>frame[-1]\<close> whatever the length.
  \<^item> \<open>Log_Loops\<close>: the \<open>for\<close> loops of \<open>_logs.h\<close> with their C counter
    types (\<open>u1_t\<close>, \<open>size_t\<close>) as a \<open>partial_function (option)\<close>
    \<open>for_loop\<close>, where \<open>None\<close> is a loop that never ends. Lemmas: the
    three loops end and print the list-defined dumps of \<open>Logs\<close>.
  \<^item> \<open>Credentials\<close>: \<open>_credentials.h\<close>: the key tables per provider and the
    callbacks \<open>os_getArtEui\<close>, \<open>os_getDevEui\<close>, \<open>os_getDevKey\<close>. Lemma:
    the callbacks fill their buffers with the selected provider's tables.

  \<^bold>\<open>Correspondence.\<close> A C global is a field of \<open>globals\<close>; LMIC's struct
  \<open>LMIC\<close> is the field \<open>lmic\<close> of the node; a function that writes globals is
  a function \<open>node \<Rightarrow> node \<times> io list\<close> whose list holds the calls into
  LMIC and the platform in the order the code makes them. Integer widths are
  those of the ESP32 (\<open>unsigned int\<close> is 32 bits), so the counter wraps and a
  16-bit interval is widened with \<open>ucast\<close>. Undefined behaviour is a value:
  the float-to-\<open>u1_t\<close> conversion of the SNR is \<open>None\<close> where C leaves it
  undefined.

  \<^bold>\<open>Bounds.\<close> No fuel is used. The loops of the sources are modelled twice:
  as structural recursions over the list they walk (\<open>Logs\<close>), and as the
  C loops with their word counters (\<open>Log_Loops\<close>), a \<open>partial_function
  (option)\<close> that is proved to return \<open>Some\<close> because the bound has the
  counter's own type, so the counter never wraps before the test fails.
  \<open>lmic_receive\<close> delivers frames whose header is shorter than 255 bytes and
  whose payload is shorter than 256, the range LMIC's 8-bit indices can hold (a
  LoRaWAN frame has at most 255 bytes). The host's restart reseeds the counter
  to a value \<open>reseed\<close>; the loop-freedom results hold for every
  \<open>reseed \<le> 2\<close>. The data rates are the AU915 numbers of LMIC (DR0 = SF12
  to DR5 = SF7), the region of every provider the configuration offers.

  \<^bold>\<open>Not modelled.\<close> LMIC itself (radio, MAC, timing, join) and the Arduino
  core, which the sources only call; the serial baud setup; the ABP session
  set-up and the \<open>lmic_pins\<close> structure of the sketch's main file, which are
  not under \<open>src/\<close>. In \<open>showTxRxInformations\<close> the line
  \<open>float freq = LMIC.freq / 1000000.0\<close> and its printing with
  \<open>String(freq)\<close> are left as a parameter (the printed text): the value goes
  through a double division, a conversion to single precision and the Arduino
  core's \<open>dtostrf\<close>, whose rounding steps live in the core library and not in
  this repository, so the serial-log component is modelled except for that
  text. Every other line of code under \<open>src/\<close> is translated by a mapped
  definition.

  The root theory adds a result across the components: the separation of the
  LED pin from the radio's pin map, so that the handler never drives a radio
  pin.
\<close>

section \<open>Shared facts\<close>

lemma gpio_downlinksRule_other:
  "p \<noteq> LED \<Longrightarrow> gpio (fst (downlinksRule s)) p = gpio s p"
  by (simp add: downlinksRule_unfold digitalWrite_def)

lemma LED_not_radio_pin: "LED \<notin> set radio_pins"
  by (simp add: LED_def radio_pins_def SCK_GPIO_def MISO_GPIO_def MOSI_GPIO_def NSS_GPIO_def
      RESET_GPIO_def DIO0_GPIO_def DIO1_GPIO_def DIO2_GPIO_def)

section \<open>Properties across the components\<close>

text \<open>
  C11: the downlink handler never drives a pin of the radio: the LED pin it
  writes is none of the SPI, reset and DIO pins of the configured pin map, so
  every radio pin keeps its level.
\<close>

theorem downlinks_leave_radio_pins:
  assumes "p \<in> set radio_pins"
  shows "gpio (fst (downlinksRule s)) p = gpio s p"
proof -
  have "p \<noteq> LED"
    using assms LED_not_radio_pin by blast
  then show ?thesis
    by (rule gpio_downlinksRule_other)
qed

theorem downlinks_leave_radio_pins_witness:
  "NSS_GPIO \<in> set radio_pins
   \<and> gpio (fst (downlinksRule (node_boot\<lparr>lmic := lmic_receive example_hdr 1 [1] lmic_init\<rparr>))) NSS_GPIO
     = gpio (node_boot\<lparr>lmic := lmic_receive example_hdr 1 [1] lmic_init\<rparr>) NSS_GPIO"
proof -
  have p: "NSS_GPIO \<in> set radio_pins"
    by (simp add: radio_pins_def)
  show ?thesis
    using p downlinks_leave_radio_pins [OF p] by blast
qed

end
